theory Spec2Isabelle
  imports Complex_Main "HOL-Library.Char_ord" "HOL-Library.List_Lexorder"
begin

section \<open>The logit transform of \<^verbatim>\<open>data_utils.py\<close>\<close>

text \<open>
  A mini-batch is a tensor with the four dimensions batch, channel, height and width,
  modelled as a four-fold nested list of reals. All arithmetic is exact real
  arithmetic: rounding of the floating-point operations is not part of the model, and
  neither are the floating-point values outside the reals (where the code would
  produce an infinity or a NaN the theorems below carry a hypothesis that excludes
  the input).
\<close>

type_synonym tensor = "real list list list list"

definition tmap :: "(real \<Rightarrow> real) \<Rightarrow> tensor \<Rightarrow> tensor" where
  "tmap f = map (map (map (map f)))"

definition tmap2 :: "(real \<Rightarrow> real \<Rightarrow> real) \<Rightarrow> tensor \<Rightarrow> tensor \<Rightarrow> tensor" where
  "tmap2 f = map2 (map2 (map2 (map2 f)))"

text \<open>The elements of a tensor, in row-major order.\<close>

definition flatten :: "tensor \<Rightarrow> real list" where
  "flatten t = concat (concat (concat t))"

definition elems :: "tensor \<Rightarrow> real set" where
  "elems t = set (flatten t)"

text \<open>\<^verbatim>\<open>torch.sum(t, dim=(1, 2, 3))\<close>: one scalar per sample.\<close>

definition sum_dims_1_2_3 :: "tensor \<Rightarrow> real list" where
  "sum_dims_1_2_3 t = map (\<lambda>sample. sum_list (map (\<lambda>chan. sum_list (map sum_list chan)) sample)) t"

text \<open>
  \<^verbatim>\<open>F.softplus\<close> with its default parameters is \<open>log (1 + exp z)\<close>. (The library
  switches to the identity for arguments above its threshold 20, where the two differ
  by less than \<open>exp (- 20)\<close>: a device of the floating-point implementation like
  rounding, and not modelled. At the default constraint no argument reaches the
  threshold: \<open>default_constraint_below_threshold\<close> below.)
\<close>

definition softplus :: "real \<Rightarrow> real" where
  "softplus z = ln (1 + exp z)"

text \<open>
  The second component of the result of \<^verbatim>\<open>logit_transform\<close>: the integer \<open>0\<close> in the
  reverse direction, a tensor with one entry per sample in the forward direction.
\<close>

datatype log_det = Zero | PerSample "real list"

text \<open>
  The forward branch in the order of its comments. The noise drawn by
  \<^verbatim>\<open>distributions.Uniform(0., 1.).sample((B, C, H, W))\<close> is an argument of the model;
  the in-place updates act on the fresh tensor that the dequantization returns.
\<close>

definition dequantization :: "tensor \<Rightarrow> tensor \<Rightarrow> tensor" where
  "dequantization x noise = tmap2 (\<lambda>v n. (v * 255 + n) / 256) x noise"

definition restrict_data :: "real \<Rightarrow> tensor \<Rightarrow> tensor" where
  "restrict_data constraint x =
     (let x = tmap (\<lambda>v. v * 2) x;
          x = tmap (\<lambda>v. v - 1) x;
          x = tmap (\<lambda>v. v * constraint) x;
          x = tmap (\<lambda>v. v + 1) x;
          x = tmap (\<lambda>v. v / 2) x
      in x)"

definition logit_data :: "tensor \<Rightarrow> tensor" where
  "logit_data x = tmap (\<lambda>v. ln v - ln (1 - v)) x"

definition log_det_jacobian :: "real \<Rightarrow> tensor \<Rightarrow> real list" where
  "log_det_jacobian constraint logit_x =
     (let pre_logit_scale = ln constraint - ln (1 - constraint);
          log_diag_J = tmap (\<lambda>l. softplus l + softplus (- l) - softplus (- pre_logit_scale)) logit_x
      in sum_dims_1_2_3 log_diag_J)"

definition logit_transform :: "tensor \<Rightarrow> real \<Rightarrow> bool \<Rightarrow> tensor \<Rightarrow> tensor \<times> log_det" where
  "logit_transform x constraint reverse noise =
     (if reverse then
        (let x = tmap (\<lambda>v. 1 / (exp (- v) + 1)) x;
             x = tmap (\<lambda>v. v * 2) x;
             x = tmap (\<lambda>v. v - 1) x;
             x = tmap (\<lambda>v. v / constraint) x;
             x = tmap (\<lambda>v. v + 1) x;
             x = tmap (\<lambda>v. v / 2) x
         in (x, Zero))
      else
        (let x = dequantization x noise;
             x = restrict_data constraint x;
             logit_x = logit_data x
         in (logit_x, PerSample (log_det_jacobian constraint logit_x))))"

section \<open>Dataset loading of \<^verbatim>\<open>data_utils.py\<close>\<close>

text \<open>
  Exceptions are values. \<open>UnboundLocalError\<close> is what Python raises when a local variable
  is read before any assignment to it; the others come from the libraries: a missing
  file or directory, a CIFAR-10 directory that is absent or corrupted, lengths that
  do not fit (in \<^verbatim>\<open>random_split\<close>, in a column assignment), and a position out of range.
\<close>

datatype error = UnboundLocalError | ValueError | FileNotFoundError | RuntimeError | IndexError

text \<open>
  A row of the CelebA tables has the columns \<^verbatim>\<open>image_id\<close> and \<^verbatim>\<open>partition\<close>. What the code
  reads from the disk is a record: directory listings (\<^verbatim>\<open>os.listdir\<close>), CSV tables
  (\<^verbatim>\<open>pd.read_csv\<close>, \<^verbatim>\<open>to_csv\<close>), the number of samples of the CIFAR-10 training set under
  \<^verbatim>\<open>./data\<close> (\<open>None\<close>: not there), and the number of images an \<^verbatim>\<open>ImageFolder\<close> finds
  under a root directory.
\<close>

record row =
  image_id :: string
  partition :: int

record disk =
  listing :: "string \<rightharpoonup> string list"
  csv_files :: "string \<rightharpoonup> row list"
  cifar10_train :: "nat option"
  image_folders :: "string \<rightharpoonup> nat"

definition listdir :: "disk \<Rightarrow> string \<Rightarrow> error + string list" where
  "listdir d folder = (case listing d folder of None \<Rightarrow> Inl FileNotFoundError | Some names \<Rightarrow> Inr names)"

definition read_csv :: "disk \<Rightarrow> string \<Rightarrow> error + row list" where
  "read_csv d path = (case csv_files d path of None \<Rightarrow> Inl FileNotFoundError | Some rows \<Rightarrow> Inr rows)"

definition to_csv :: "row list \<Rightarrow> string \<Rightarrow> disk \<Rightarrow> disk" where
  "to_csv rows path d = d\<lparr>csv_files := (csv_files d)(path \<mapsto> rows)\<rparr>"

text \<open>
  \<^verbatim>\<open>get_csv\<close>: the sorted paths of the image folder replace the \<^verbatim>\<open>image_id\<close> column of the
  table sorted by \<^verbatim>\<open>image_id\<close> (pandas refuses a list of another length), and the table is
  written to \<^verbatim>\<open>paths.csv\<close>. Strings are ordered lexicographically by character code;
  rows with the same \<^verbatim>\<open>image_id\<close> keep their order here (pandas leaves it open, and no
  property below depends on it).
\<close>

definition get_csv :: "disk \<Rightarrow> string \<Rightarrow> string \<Rightarrow> error + (row list \<times> disk)" where
  "get_csv d data_folder csv_path =
     (case listdir d data_folder of
        Inl e \<Rightarrow> Inl e
      | Inr paths \<Rightarrow>
          (let paths = map (\<lambda>p. data_folder @ ''/'' @ p) paths;
               paths = sort paths
           in case read_csv d csv_path of
                Inl e \<Rightarrow> Inl e
              | Inr table \<Rightarrow>
                  (let csvs = sort_key image_id table
                   in if length paths \<noteq> length csvs then Inl ValueError
                      else (let csvs = map2 (\<lambda>r p. r\<lparr>image_id := p\<rparr>) csvs paths
                            in Inr (csvs, to_csv csvs ''paths.csv'' d)))))"

text \<open>
  The class \<^verbatim>\<open>CelebA\<close>. Its transform acts on the pixels of an opened image and is left
  out; \<^verbatim>\<open>__getitem__\<close> is modelled up to the path of the image file it opens
  (\<^verbatim>\<open>iloc\<close> counts a negative position from the end).
\<close>

record CelebA =
  file_paths :: "row list"

definition CelebA_init :: "disk \<Rightarrow> string \<Rightarrow> string \<Rightarrow> error + CelebA" where
  "CelebA_init d csv_paths split =
     (case read_csv d csv_paths of
        Inl e \<Rightarrow> Inl e
      | Inr rows \<Rightarrow>
          Inr \<lparr>file_paths =
                 (if split = ''train'' then filter (\<lambda>r. partition r = 0) rows
                  else if split = ''val'' then filter (\<lambda>r. partition r = 1) rows
                  else if split = ''test'' then filter (\<lambda>r. partition r = 2) rows
                  else rows)\<rparr>)"

definition CelebA_len :: "CelebA \<Rightarrow> nat" where
  "CelebA_len self = length (file_paths self)"

definition CelebA_getitem :: "CelebA \<Rightarrow> int \<Rightarrow> error + string" where
  "CelebA_getitem self idx =
     (let rows = file_paths self
      in if idx < - int (length rows) \<or> int (length rows) \<le> idx then Inl IndexError
         else Inr (image_id (rows ! nat (if idx < 0 then int (length rows) + idx else idx))))"

text \<open>The field \<^verbatim>\<open>size\<close> of \<^verbatim>\<open>DataInfo\<close> is called \<open>size_hw\<close> here.\<close>

record DataInfo =
  name :: string
  channel :: int
  size_hw :: int

text \<open>
  A split is either a \<^verbatim>\<open>Subset\<close> of a torchvision dataset, given by its indices, or a
  \<^verbatim>\<open>CelebA\<close> object. \<^verbatim>\<open>random_split\<close> raises unless the lengths sum to the length of the
  dataset, and cuts the random permutation of the indices (an argument of the model:
  \<open>randperm n\<close> is the permutation drawn for \<open>n\<close> indices) into consecutive pieces.
\<close>

datatype data_split = Subset "nat list" | CelebA_split CelebA

fun split_len :: "data_split \<Rightarrow> nat" where
  "split_len (Subset indices) = length indices"
| "split_len (CelebA_split c) = CelebA_len c"

fun pieces :: "nat list \<Rightarrow> nat list \<Rightarrow> data_split list" where
  "pieces indices [] = []"
| "pieces indices (l # ls) = Subset (take l indices) # pieces (drop l indices) ls"

definition random_split :: "(nat \<Rightarrow> nat list) \<Rightarrow> nat \<Rightarrow> nat list \<Rightarrow> error + data_split list" where
  "random_split randperm n lengths =
     (if sum_list lengths \<noteq> n then Inl ValueError
      else Inr (pieces (randperm (sum_list lengths)) lengths))"

definition CIFAR10 :: "disk \<Rightarrow> error + nat" where
  "CIFAR10 d = (case cifar10_train d of None \<Rightarrow> Inl RuntimeError | Some n \<Rightarrow> Inr n)"

definition ImageFolder :: "disk \<Rightarrow> string \<Rightarrow> error + nat" where
  "ImageFolder d root_dir = (case image_folders d root_dir of None \<Rightarrow> Inl FileNotFoundError | Some n \<Rightarrow> Inr n)"

text \<open>
  \<^verbatim>\<open>load\<close>. The image transforms are left out. A name that matches no branch reaches the
  \<^verbatim>\<open>return\<close> with \<^verbatim>\<open>train_split\<close> unassigned. The disk is returned too: the CelebA branch
  writes \<^verbatim>\<open>paths.csv\<close>.
\<close>

definition load :: "disk \<Rightarrow> (nat \<Rightarrow> nat list) \<Rightarrow> string \<Rightarrow> error + (data_split \<times> data_split \<times> DataInfo \<times> disk)" where
  "load d randperm dataset =
     (if dataset = ''cifar10'' then
        (let data_info = \<lparr>name = dataset, channel = 3, size_hw = 32\<rparr>
         in case CIFAR10 d of
              Inl e \<Rightarrow> Inl e
            | Inr train_set \<Rightarrow>
                (case random_split randperm train_set [46000, 4000] of
                   Inl e \<Rightarrow> Inl e
                 | Inr [train_split, val_split] \<Rightarrow> Inr (train_split, val_split, data_info, d)
                 | Inr _ \<Rightarrow> Inl ValueError))
      else if dataset = ''celeba'' then
        (let data_info = \<lparr>name = dataset, channel = 3, size_hw = 64\<rparr>
         in case get_csv d ''./img_align_celeba/img_align_celeba'' ''./celeb_A_dataset.csv'' of
              Inl e \<Rightarrow> Inl e
            | Inr (ans, d) \<Rightarrow>
                (case CelebA_init d ''paths.csv'' ''train'' of
                   Inl e \<Rightarrow> Inl e
                 | Inr train_split \<Rightarrow>
                     (case CelebA_init d ''paths.csv'' ''val'' of
                        Inl e \<Rightarrow> Inl e
                      | Inr val_split \<Rightarrow>
                          Inr (CelebA_split train_split, CelebA_split val_split, data_info, d))))
      else if dataset = ''imnet32'' then
        (let data_info = \<lparr>name = dataset, channel = 3, size_hw = 32\<rparr>
         in case ImageFolder d ''../../data/ImageNet32/train'' of
              Inl e \<Rightarrow> Inl e
            | Inr train_set \<Rightarrow>
                (case random_split randperm train_set [1250000, 31149] of
                   Inl e \<Rightarrow> Inl e
                 | Inr [train_split, val_split] \<Rightarrow> Inr (train_split, val_split, data_info, d)
                 | Inr _ \<Rightarrow> Inl ValueError))
      else if dataset = ''imnet64'' then
        (let data_info = \<lparr>name = dataset, channel = 3, size_hw = 64\<rparr>
         in case ImageFolder d ''../../data/ImageNet64/train'' of
              Inl e \<Rightarrow> Inl e
            | Inr train_set \<Rightarrow>
                (case random_split randperm train_set [1250000, 31149] of
                   Inl e \<Rightarrow> Inl e
                 | Inr [train_split, val_split] \<Rightarrow> Inr (train_split, val_split, data_info, d)
                 | Inr _ \<Rightarrow> Inl ValueError))
      else Inl UnboundLocalError)"

section \<open>The training procedure of \<^verbatim>\<open>train_rgb.py\<close>\<close>

text \<open>
  The flow model (module \<^verbatim>\<open>realnvp\<close>) and the optimizer are not part of the sources. What
  they contribute to the control flow of \<^verbatim>\<open>main\<close> is, for every mini-batch, the two numbers
  \<^verbatim>\<open>log_ll.item()\<close> (the mean over the batch of the flow's log-likelihood plus the
  log-determinant of the logit transform) and \<^verbatim>\<open>weight_scale\<close>, and, for every epoch,
  the tensor that \<^verbatim>\<open>flow.sample\<close> returns. These are arguments of the model: \<open>flow e\<close>
  holds them for epoch \<open>e\<close>, one entry per mini-batch that the data loaders yield.
\<close>

record batch_out =
  log_ll :: real
  weight_scale :: real

record epoch_data =
  train_batches :: "batch_out list"
  val_batches :: "batch_out list"
  samples :: tensor

text \<open>\<^verbatim>\<open>optimal_log_ll\<close> starts as \<^verbatim>\<open>float('-inf')\<close>.\<close>

datatype ext = MinusInf | Finite real

fun gt :: "real \<Rightarrow> ext \<Rightarrow> bool" where
  "gt m MinusInf = True"
| "gt m (Finite b) = (m > b)"

text \<open>
  What the procedure prints and writes, in order. \<open>PrintBatch\<close> carries the five values of
  the progress line, the two \<open>Average\<close> events the three values of the three lines
  printed together; \<open>SaveLossCurves\<close> is the plot of the two loss lists, \<open>Sample\<close> the call
  of \<^verbatim>\<open>flow.sample\<close>, \<open>SaveImage\<close> the grid image of an epoch and \<open>SaveCheckpoint\<close> a
  \<^verbatim>\<open>torch.save\<close> of the model state to the checkpoint file.
\<close>

datatype event =
    PrintEpoch int
  | PrintBatch int int real real real
  | PrintTrainAverage real real real
  | PrintValAverage real real real
  | SaveLossCurves "real list" "real list"
  | Sample int
  | SaveImage int tensor
  | SaveCheckpoint
  | PrintEarlyStop int ext
  | PrintFinished int

text \<open>The command-line arguments that \<^verbatim>\<open>main\<close> uses beyond the construction of the flow.\<close>

record args =
  dataset :: string
  batch_size :: int
  max_epoch :: int
  sample_size :: int

text \<open>
  The local variables of \<^verbatim>\<open>main\<close> that change, and the output so far. \<open>batch_idx\<close> is
  \<open>None\<close> until a loop has bound it.
\<close>

record train_state =
  epoch :: int
  running_loss :: real
  running_log_ll :: real
  optimal_log_ll :: ext
  early_stop :: int
  batch_idx :: "nat option"
  losses_train :: "real list"
  losses_val :: "real list"
  out :: "event list"

definition emit :: "event \<Rightarrow> train_state \<Rightarrow> train_state" where
  "emit ev s = s\<lparr>out := out s @ [ev]\<rparr>"

definition scale_reg :: real where
  "scale_reg = 5 / 100000"

definition initial_state :: train_state where
  "initial_state =
     \<lparr>epoch = 0, running_loss = 0, running_log_ll = 0, optimal_log_ll = MinusInf,
      early_stop = 0, batch_idx = None, losses_train = [], losses_val = [], out = []\<rparr>"

text \<open>The body of the loop over the training batches, for batch number \<open>idx\<close> (from 1).\<close>

definition train_batch :: "args \<Rightarrow> data_split \<Rightarrow> int \<Rightarrow> train_state \<Rightarrow> nat \<times> batch_out \<Rightarrow> train_state" where
  "train_batch a train_split image_size s ib =
     (case ib of (idx, b) \<Rightarrow>
        (let loss = - log_ll b + scale_reg * weight_scale b;
             s = s\<lparr>batch_idx := Some idx\<rparr>;
             s = s\<lparr>running_loss := running_loss s + loss\<rparr>;
             s = s\<lparr>running_log_ll := running_log_ll s + log_ll b\<rparr>
         in if idx mod 1000 = 0 then
              (let bit_per_dim = (- log_ll b + ln 256 * real_of_int image_size)
                                   / (real_of_int image_size * ln 2)
               in emit (PrintBatch (int idx * batch_size a) (int (split_len train_split))
                          loss (log_ll b) bit_per_dim) s)
            else s))"

definition val_batch :: "train_state \<Rightarrow> nat \<times> batch_out \<Rightarrow> train_state" where
  "val_batch s ib =
     (case ib of (idx, b) \<Rightarrow>
        (let loss = - log_ll b + scale_reg * weight_scale b;
             s = s\<lparr>batch_idx := Some idx\<rparr>;
             s = s\<lparr>running_loss := running_loss s + loss\<rparr>;
             s = s\<lparr>running_log_ll := running_log_ll s + log_ll b\<rparr>
         in s))"

text \<open>Lines 94 to 135: the epoch counter, the training batches and the train averages.\<close>

definition epoch_training :: "args \<Rightarrow> data_split \<Rightarrow> int \<Rightarrow> epoch_data \<Rightarrow> train_state \<Rightarrow> error + train_state" where
  "epoch_training a train_split image_size d s =
     (let s = s\<lparr>epoch := epoch s + 1\<rparr>;
          s = emit (PrintEpoch (epoch s)) s;
          s = foldl (train_batch a train_split image_size) s (enumerate 1 (train_batches d))
      in case batch_idx s of
           None \<Rightarrow> Inl UnboundLocalError
         | Some n \<Rightarrow>
             (let mean_loss = running_loss s / real n;
                  s = s\<lparr>losses_train := losses_train s @ [mean_loss]\<rparr>;
                  mean_log_ll = running_log_ll s / real n;
                  mean_bit_per_dim = (- mean_log_ll + ln 256 * real_of_int image_size)
                                       / (real_of_int image_size * ln 2);
                  s = emit (PrintTrainAverage mean_loss mean_log_ll mean_bit_per_dim) s;
                  s = s\<lparr>running_loss := 0\<rparr>;
                  s = s\<lparr>running_log_ll := 0\<rparr>
              in Inr s))"

text \<open>
  Lines 137 to 179: the validation batches, the validation averages, the loss curves, the
  samples with the grid image, and the \<^verbatim>\<open>torch.save\<close> of line 179. The result holds
  \<^verbatim>\<open>mean_log_ll\<close>, which the early-stopping check reads.
\<close>

definition epoch_validating :: "args \<Rightarrow> int \<Rightarrow> epoch_data \<Rightarrow> train_state \<Rightarrow> error + (train_state \<times> real)" where
  "epoch_validating a image_size d s =
     (let s = foldl val_batch s (enumerate 1 (val_batches d))
      in case batch_idx s of
           None \<Rightarrow> Inl UnboundLocalError
         | Some n \<Rightarrow>
             (let mean_loss = running_loss s / real n;
                  mean_log_ll = running_log_ll s / real n;
                  mean_bit_per_dim = (- mean_log_ll + ln 256 * real_of_int image_size)
                                       / (real_of_int image_size * ln 2);
                  s = emit (PrintValAverage mean_loss mean_log_ll mean_bit_per_dim) s;
                  s = s\<lparr>losses_val := losses_val s @ [mean_loss]\<rparr>;
                  s = emit (SaveLossCurves (losses_train s) (losses_val s)) s;
                  s = s\<lparr>running_loss := 0\<rparr>;
                  s = s\<lparr>running_log_ll := 0\<rparr>;
                  s = emit (Sample (sample_size a)) s;
                  (samples, _) = logit_transform (samples d) (9 / 10) True [];
                  s = (if epoch s \<le> 15 \<or> epoch s = 25 \<or> epoch s = 35 \<or> epoch s = 45
                          \<or> epoch s mod 10 = 0
                       then emit (SaveImage (epoch s) samples) s else s);
                  s = emit SaveCheckpoint s
              in Inr (s, mean_log_ll)))"

text \<open>Lines 181 to 191. The flag of the result says whether the \<^verbatim>\<open>break\<close> was taken.\<close>

definition early_stopping_check :: "real \<Rightarrow> train_state \<Rightarrow> train_state \<times> bool" where
  "early_stopping_check mean_log_ll s =
     (if gt mean_log_ll (optimal_log_ll s) then
        (let s = s\<lparr>early_stop := 0\<rparr>;
             s = s\<lparr>optimal_log_ll := Finite mean_log_ll\<rparr>;
             s = emit SaveCheckpoint s
         in (emit (PrintEarlyStop (early_stop s) (optimal_log_ll s)) s, False))
      else
        (let s = s\<lparr>early_stop := early_stop s + 1\<rparr>
         in if early_stop s \<ge> 100 then (s, True)
            else (emit (PrintEarlyStop (early_stop s) (optimal_log_ll s)) s, False)))"

definition epoch_body :: "args \<Rightarrow> data_split \<Rightarrow> int \<Rightarrow> epoch_data \<Rightarrow> train_state \<Rightarrow> error + (train_state \<times> bool)" where
  "epoch_body a train_split image_size d s =
     (case epoch_training a train_split image_size d s of
        Inl e \<Rightarrow> Inl e
      | Inr s \<Rightarrow>
          (case epoch_validating a image_size d s of
             Inl e \<Rightarrow> Inl e
           | Inr (s, mean_log_ll) \<Rightarrow> Inr (early_stopping_check mean_log_ll s)))"

text \<open>The loop \<^verbatim>\<open>while epoch < args.max_epoch\<close>; epoch \<open>e\<close> consumes \<open>flow e\<close>.\<close>

function main_loop :: "args \<Rightarrow> data_split \<Rightarrow> int \<Rightarrow> (int \<Rightarrow> epoch_data) \<Rightarrow> train_state \<Rightarrow> error + train_state" where
  "main_loop a train_split image_size flow s =
     (if epoch s < max_epoch a then
        (case epoch_body a train_split image_size (flow (epoch s + 1)) s of
           Inl e \<Rightarrow> Inl e
         | Inr (s', stop) \<Rightarrow> if stop then Inr s' else main_loop a train_split image_size flow s')
      else Inr s)"
  by pat_completeness auto
termination
proof (relation "measure (\<lambda>(a, train_split, image_size, flow, s). nat (max_epoch a - epoch s))")
  show "wf (measure (\<lambda>(a, train_split, image_size, flow, s). nat (max_epoch a - epoch s)))"
    by simp
next
  fix a :: args and train_split image_size and flow :: "int \<Rightarrow> epoch_data"
    and s :: train_state and x s' stop
  assume lt: "epoch s < max_epoch a"
    and body: "epoch_body a train_split image_size (flow (epoch s + 1)) s = Inr x"
    and x: "(s', stop) = x"
  have train: "epoch (foldl (train_batch a train_split image_size) t bs) = epoch t" for t bs
    by (induction bs arbitrary: t)
      (simp_all add: train_batch_def emit_def Let_def split: prod.splits)
  have val: "epoch (foldl val_batch t bs) = epoch t" for t bs
    by (induction bs arbitrary: t) (simp_all add: val_batch_def Let_def split: prod.splits)
  from body x have "epoch s' = epoch s + 1"
    by (auto simp: epoch_body_def epoch_training_def epoch_validating_def early_stopping_check_def
        emit_def Let_def train val split: sum.splits option.splits prod.splits if_splits)
  with lt show "((a, train_split, image_size, flow, s'), (a, train_split, image_size, flow, s))
      \<in> measure (\<lambda>(a, train_split, image_size, flow, s). nat (max_epoch a - epoch s))"
    by simp
qed

text \<open>
  \<^verbatim>\<open>main\<close>, from the call of \<^verbatim>\<open>load\<close>: no exception is caught anywhere, so an error of
  \<^verbatim>\<open>load\<close> or of an epoch is the result of \<^verbatim>\<open>main\<close>.
\<close>

definition main :: "disk \<Rightarrow> (nat \<Rightarrow> nat list) \<Rightarrow> (int \<Rightarrow> epoch_data) \<Rightarrow> args \<Rightarrow> error + train_state" where
  "main d randperm flow a =
     (case load d randperm (dataset a) of
        Inl e \<Rightarrow> Inl e
      | Inr (train_split, val_split, data_info, d') \<Rightarrow>
          (let image_size = channel data_info * (size_hw data_info)\<^sup>2
           in case main_loop a train_split image_size flow initial_state of
                Inl e \<Rightarrow> Inl e
              | Inr s \<Rightarrow> Inr (emit (PrintFinished (epoch s)) s)))"

declare main_loop.simps [simp del]

section \<open>Notions for stating the properties of the training procedure\<close>

text \<open>The formula of the specification for bits per dimension.\<close>

definition bits_per_dim_formula :: "real \<Rightarrow> real \<Rightarrow> real" where
  "bits_per_dim_formula L D = (- L + ln 256 * D) / (D * ln 2)"

text \<open>An event that reports bits per dimension reports the formula's value for its log-likelihood.\<close>

fun reports_formula :: "real \<Rightarrow> event \<Rightarrow> bool" where
  "reports_formula D (PrintBatch seen n_total loss L bpd) = (bpd = bits_per_dim_formula L D)"
| "reports_formula D (PrintTrainAverage loss L bpd) = (bpd = bits_per_dim_formula L D)"
| "reports_formula D (PrintValAverage loss L bpd) = (bpd = bits_per_dim_formula L D)"
| "reports_formula D ev = True"

fun is_batch_line :: "event \<Rightarrow> bool" where
  "is_batch_line (PrintBatch seen n_total loss L bpd) = True"
| "is_batch_line ev = False"

text \<open>
  The mean validation log-likelihood of an epoch. (With no validation batch the running
  sum is still zero when it is divided by the batch count of the training loop.)
\<close>

definition mean_val_log_ll :: "epoch_data \<Rightarrow> real" where
  "mean_val_log_ll d =
     (if val_batches d = [] then 0
      else sum_list (map log_ll (val_batches d)) / real (length (val_batches d)))"

text \<open>
  The early-stop bookkeeping in the words of the specification: the best mean validation
  log-likelihood and the counter after \<open>n\<close> epochs, where the counter is reset to zero
  by an epoch that improves on the best so far and incremented by any other epoch.
\<close>

fun best_and_counter :: "(int \<Rightarrow> epoch_data) \<Rightarrow> nat \<Rightarrow> ext \<times> int" where
  "best_and_counter flow 0 = (MinusInf, 0)"
| "best_and_counter flow (Suc n) =
     (let (best, counter) = best_and_counter flow n;
          m = mean_val_log_ll (flow (int (Suc n)))
      in if gt m best then (Finite m, 0) else (best, counter + 1))"

text \<open>
  Projections of the output: the grid images, the sampling calls, and the events of the
  checkpoint bookkeeping (the epoch line, a checkpoint, the early-stopping line).
\<close>

fun grid_of :: "event \<Rightarrow> (int \<times> tensor) option" where
  "grid_of (SaveImage e img) = Some (e, img)"
| "grid_of ev = None"

fun sample_of :: "event \<Rightarrow> int option" where
  "sample_of (Sample n) = Some n"
| "sample_of ev = None"

fun checkpoint_or_epoch :: "event \<Rightarrow> bool" where
  "checkpoint_or_epoch SaveCheckpoint = True"
| "checkpoint_or_epoch (PrintEpoch e) = True"
| "checkpoint_or_epoch (PrintEarlyStop c best) = True"
| "checkpoint_or_epoch ev = False"

text \<open>What an epoch appended to the output.\<close>

definition events_since :: "train_state \<Rightarrow> train_state \<Rightarrow> event list" where
  "events_since s s' = drop (length (out s)) (out s')"

section \<open>Properties of the logit transform\<close>

lemma flatten_tmap: "flatten (tmap f t) = map f (flatten t)"
  by (simp add: flatten_def tmap_def map_concat)

lemma elems_tmap: "elems (tmap f t) = f ` elems t"
  by (simp add: elems_def flatten_tmap)

lemma tmap_tmap: "tmap f (tmap g t) = tmap (\<lambda>v. f (g v)) t"
  by (simp add: tmap_def comp_def)

lemma tmap_cong: "(\<And>v. v \<in> elems t \<Longrightarrow> f v = g v) \<Longrightarrow> tmap f t = tmap g t"
  unfolding tmap_def elems_def flatten_def
  by (auto intro!: map_cong)

lemma restrict_data_eq: "restrict_data c x = tmap (\<lambda>v. ((v * 2 - 1) * c + 1) / 2) x"
  by (simp add: restrict_data_def tmap_tmap)

lemma elems_tmap2E:
  assumes "z \<in> elems (tmap2 f x n)"
  obtains v m where "v \<in> elems x" "m \<in> elems n" "z = f v m"
proof -
  from assms obtain xs ns xc nc xr nr v m where
    1: "(xs, ns) \<in> set (zip x n)" and 2: "(xc, nc) \<in> set (zip xs ns)" and
    3: "(xr, nr) \<in> set (zip xc nc)" and 4: "(v, m) \<in> set (zip xr nr)" and z: "z = f v m"
    by (auto simp: elems_def flatten_def tmap2_def)
  have "v \<in> elems x"
    using set_zip_leftD[OF 1] set_zip_leftD[OF 2] set_zip_leftD[OF 3] set_zip_leftD[OF 4]
    by (auto simp: elems_def flatten_def)
  moreover have "m \<in> elems n"
    using set_zip_rightD[OF 1] set_zip_rightD[OF 2] set_zip_rightD[OF 3] set_zip_rightD[OF 4]
    by (auto simp: elems_def flatten_def)
  ultimately show thesis using z by (rule that)
qed

lemma restricted_range:
  assumes "0 < c" "0 \<le> d" "d < (1::real)"
  shows "(1 - c) / 2 \<le> ((d * 2 - 1) * c + 1) / 2" "((d * 2 - 1) * c + 1) / 2 < 1 - (1 - c) / 2"
  using assms by (auto simp: field_simps)

lemma softplus_logit:
  assumes "0 < s" "s < 1"
  shows "softplus (ln s - ln (1 - s)) = - ln (1 - s)"
proof -
  have "1 + exp (ln s - ln (1 - s)) = 1 / (1 - s)"
    using assms by (simp add: exp_diff field_simps)
  then show ?thesis using assms by (simp add: softplus_def ln_div)
qed

lemma softplus_neg_logit:
  assumes "0 < s" "s < 1"
  shows "softplus (- (ln s - ln (1 - s))) = - ln s"
proof -
  have "exp (- (ln s - ln (1 - s))) = (1 - s) / s"
    using assms by (simp add: exp_diff)
  then have "1 + exp (- (ln s - ln (1 - s))) = 1 / s"
    using assms by (simp add: field_simps)
  then show ?thesis using assms by (simp add: softplus_def ln_div)
qed

lemma sigmoid_logit:
  assumes "0 < s" "s < (1::real)"
  shows "1 / (exp (- (ln s - ln (1 - s))) + 1) = s"
proof -
  have "exp (- (ln s - ln (1 - s))) = (1 - s) / s"
    using assms by (simp add: exp_diff)
  then have "exp (- (ln s - ln (1 - s))) + 1 = 1 / s"
    using assms by (simp add: field_simps)
  then show ?thesis by simp
qed


lemma log_diag_J_closed_form:
  assumes "0 < c" "c < 1" "0 < s" "s < 1"
  shows "softplus (ln s - ln (1 - s)) + softplus (- (ln s - ln (1 - s)))
           - softplus (- (ln c - ln (1 - c))) = ln c - ln s - ln (1 - s)"
  using softplus_logit[of s] softplus_neg_logit[of s] softplus_neg_logit[of c] assms by simp

lemma restricted_elems:
  assumes c: "0 < c" "c < 1" and x: "elems x \<subseteq> {0..1}" and n: "elems noise \<subseteq> {0..<1}"
  shows "elems (restrict_data c (dequantization x noise)) \<subseteq> {(1 - c) / 2 ..< 1 - (1 - c) / 2}"
proof
  fix s assume "s \<in> elems (restrict_data c (dequantization x noise))"
  then obtain d where d: "d \<in> elems (dequantization x noise)" and s: "s = ((d * 2 - 1) * c + 1) / 2"
    by (auto simp: restrict_data_eq elems_tmap)
  from d obtain v m where "v \<in> elems x" "m \<in> elems noise" "d = (v * 255 + m) / 256"
    unfolding dequantization_def by (rule elems_tmap2E)
  moreover from this x n have "0 \<le> v" "v \<le> 1" "0 \<le> m" "m < 1"
    by auto
  ultimately have "0 \<le> d" "d < 1"
    by simp_all
  with c show "s \<in> {(1 - c) / 2 ..< 1 - (1 - c) / 2}"
    unfolding s using restricted_range[of c d] by simp
qed

lemma logit_transform_forward:
  "logit_transform x c False noise =
     (logit_data (restrict_data c (dequantization x noise)),
      PerSample (log_det_jacobian c (logit_data (restrict_data c (dequantization x noise)))))"
  by (simp add: logit_transform_def Let_def)

lemma logit_transform_reverse:
  "logit_transform y c True noise =
     (tmap (\<lambda>v. ((1 / (exp (- v) + 1) * 2 - 1) / c + 1) / 2) y, Zero)"
  by (simp add: logit_transform_def Let_def tmap_tmap)

lemma log_det_jacobian_closed_form:
  assumes c: "0 < c" "c < 1" and s: "elems r \<subseteq> {0<..<1}"
  shows "log_det_jacobian c (logit_data r) =
         sum_dims_1_2_3 (tmap (\<lambda>s. ln c - ln s - ln (1 - s)) r)"
proof -
  have "tmap (\<lambda>l. softplus l + softplus (- l) - softplus (- (ln c - ln (1 - c)))) (logit_data r)
      = tmap (\<lambda>s. ln c - ln s - ln (1 - s)) r"
    unfolding logit_data_def tmap_tmap
  proof (rule tmap_cong)
    fix v assume "v \<in> elems r"
    with s have "0 < v" "v < 1" by auto
    with c show "softplus (ln v - ln (1 - v)) + softplus (- (ln v - ln (1 - v)))
        - softplus (- (ln c - ln (1 - c))) = ln c - ln v - ln (1 - v)"
      by (rule log_diag_J_closed_form)
  qed
  then show ?thesis by (simp add: log_det_jacobian_def Let_def)
qed

lemma length_forward:
  "length noise = length x \<Longrightarrow>
   length (log_det_jacobian c (logit_data (restrict_data c (dequantization x noise)))) = length x"
  by (simp add: log_det_jacobian_def Let_def sum_dims_1_2_3_def logit_data_def restrict_data_def
      dequantization_def tmap_def tmap2_def)

lemma reverse_forward:
  assumes c: "c \<noteq> 0" and s: "elems (restrict_data c d) \<subseteq> {0<..<1}"
  shows "fst (logit_transform (logit_data (restrict_data c d)) c True noise') = d"
proof -
  have "tmap (\<lambda>v. ((1 / (exp (- (ln (((v * 2 - 1) * c + 1) / 2) - ln (1 - ((v * 2 - 1) * c + 1) / 2))) + 1) * 2 - 1) / c + 1) / 2) d
      = tmap (\<lambda>v. v) d"
  proof (rule tmap_cong)
    fix v assume "v \<in> elems d"
    then have "((v * 2 - 1) * c + 1) / 2 \<in> elems (restrict_data c d)"
      by (auto simp: restrict_data_eq elems_tmap)
    with s have "0 < ((v * 2 - 1) * c + 1) / 2" "((v * 2 - 1) * c + 1) / 2 < 1" by auto
    then have "1 / (exp (- (ln (((v * 2 - 1) * c + 1) / 2) - ln (1 - ((v * 2 - 1) * c + 1) / 2))) + 1)
         = ((v * 2 - 1) * c + 1) / 2"
      by (rule sigmoid_logit)
    then show "((1 / (exp (- (ln (((v * 2 - 1) * c + 1) / 2) - ln (1 - ((v * 2 - 1) * c + 1) / 2))) + 1) * 2 - 1) / c + 1) / 2 = v"
      using c by simp
  qed
  moreover have "tmap (\<lambda>v. v) d = d"
    by (simp add: tmap_def map_idI)
  ultimately show ?thesis
    by (simp add: logit_transform_reverse logit_data_def restrict_data_eq tmap_tmap)
qed

lemma logit_below_threshold:
  assumes "1 / 20 \<le> s" and "s < 19 / (20::real)"
  shows "\<bar>ln s - ln (1 - s)\<bar> < 20"
proof -
  from assms have pos: "0 < s" "0 < 1 - s" by simp_all
  have "ln s - ln (1 - s) = ln (s / (1 - s))" using pos by (simp add: ln_div)
  also have "\<dots> \<le> s / (1 - s) - 1" using pos by (intro ln_le_minus_one) simp
  also have "\<dots> < 18" using assms pos by (simp add: field_simps)
  finally have up: "ln s - ln (1 - s) < 18" .
  have "ln (1 - s) - ln s = ln ((1 - s) / s)" using pos by (simp add: ln_div)
  also have "\<dots> \<le> (1 - s) / s - 1" using pos by (intro ln_le_minus_one) simp
  also have "\<dots> \<le> 18" using assms pos by (simp add: field_simps)
  finally have "ln (1 - s) - ln s \<le> 18" .
  with up show ?thesis by simp
qed

text \<open>
  At the default constraint, which is the only one \<^verbatim>\<open>main\<close> uses, no argument of a
  \<open>softplus\<close> reaches the threshold beyond which the library replaces it by the identity.
\<close>

lemma default_constraint_below_threshold:
  assumes "elems x \<subseteq> {0..1}" and "elems noise \<subseteq> {0..<1}"
  shows "\<forall>l \<in> elems (fst (logit_transform x (9 / 10) False noise)). \<bar>l\<bar> < 20"
    and "\<bar>ln (9 / 10) - ln (1 - 9 / (10::real))\<bar> < 20"
proof -
  have r: "elems (restrict_data (9 / 10) (dequantization x noise)) \<subseteq> {(1 - 9 / 10) / 2 ..< 1 - (1 - 9 / 10) / 2}"
    using assms by (intro restricted_elems) simp_all
  show "\<forall>l \<in> elems (fst (logit_transform x (9 / 10) False noise)). \<bar>l\<bar> < 20"
  proof
    fix l assume "l \<in> elems (fst (logit_transform x (9 / 10) False noise))"
    then obtain s where s: "s \<in> elems (restrict_data (9 / 10) (dequantization x noise))"
      and l: "l = ln s - ln (1 - s)"
      by (auto simp: logit_transform_forward logit_data_def elems_tmap)
    from r s have "1 / 20 \<le> s" "s < 19 / 20" by auto
    then show "\<bar>l\<bar> < 20" unfolding l by (rule logit_below_threshold)
  qed
  have "1 / 20 \<le> 9 / (10::real)" "9 / 10 < 19 / (20::real)" by simp_all
  then show "\<bar>ln (9 / 10) - ln (1 - 9 / (10::real))\<bar> < 20"
    by (rule logit_below_threshold)
qed

text \<open>
  Claim C7. For a constraint \<open>c\<close> in \<open>(0, 1)\<close>, pixel values in \<open>[0, 1]\<close> and noise draws in
  \<open>[0, 1)\<close>, every restricted value \<open>s\<close> of the forward direction lies in the half-open
  interval \<open>[(1 - c) / 2, 1 - (1 - c) / 2)\<close>, so \<open>s\<close> and \<open>1 - s\<close>, the arguments of the two
  logarithms, are strictly positive; the first component of the result is the
  elementwise logit \<open>ln s - ln (1 - s)\<close> of these values. The witness takes the default
  constraint \<open>0.9\<close>, where the interval is \<open>[0.05, 0.95)\<close>.
\<close>

theorem restricted_value_interval:
  assumes "0 < c" and "c < 1" and "elems x \<subseteq> {0..1}" and "elems noise \<subseteq> {0..<1}"
  shows "elems (restrict_data c (dequantization x noise)) \<subseteq> {(1 - c) / 2 ..< 1 - (1 - c) / 2}
       \<and> (\<forall>s \<in> elems (restrict_data c (dequantization x noise)). 0 < s \<and> 0 < 1 - s)
       \<and> fst (logit_transform x c False noise)
           = tmap (\<lambda>s. ln s - ln (1 - s)) (restrict_data c (dequantization x noise))"
proof -
  have sub: "elems (restrict_data c (dequantization x noise)) \<subseteq> {(1 - c) / 2 ..< 1 - (1 - c) / 2}"
    using assms by (rule restricted_elems)
  have pos: "0 < s \<and> 0 < 1 - s" if "s \<in> elems (restrict_data c (dequantization x noise))" for s
  proof -
    from sub that have "(1 - c) / 2 \<le> s" "s < 1 - (1 - c) / 2" by auto
    with assms(1,2) show ?thesis by (simp add: field_simps)
  qed
  have "fst (logit_transform x c False noise)
      = tmap (\<lambda>s. ln s - ln (1 - s)) (restrict_data c (dequantization x noise))"
    by (simp add: logit_transform_forward logit_data_def)
  with sub pos show ?thesis by blast
qed

theorem restricted_value_interval_witness:
  "(0::real) < 9 / 10 \<and> (9 / 10 :: real) < 1
   \<and> elems [[[[0, 1]]]] \<subseteq> {0..1} \<and> elems [[[[0, 1 / 2]]]] \<subseteq> {0..<1}
   \<and> restrict_data (9 / 10) (dequantization [[[[0, 1]]]] [[[[0, 1 / 2]]]]) = [[[[1 / 20, 971 / 1024]]]]
   \<and> elems (restrict_data (9 / 10) (dequantization [[[[0, 1]]]] [[[[0, 1 / 2]]]])) \<subseteq> {1 / 20 ..< 19 / 20}"
proof -
  have c: "(0::real) < 9 / 10" "(9 / 10 :: real) < 1" by simp_all
  have x: "elems [[[[0, 1]]]] \<subseteq> {0..1}" by (simp add: elems_def flatten_def)
  have n: "elems [[[[0, 1 / 2]]]] \<subseteq> {0..<1}" by (simp add: elems_def flatten_def)
  have r: "restrict_data (9 / 10) (dequantization [[[[0, 1]]]] [[[[0, 1 / 2]]]]) = [[[[1 / 20, 971 / 1024]]]]"
    by (simp add: restrict_data_def dequantization_def tmap_def tmap2_def)
  from restricted_value_interval[OF c x n]
  have "elems (restrict_data (9 / 10) (dequantization [[[[0, 1]]]] [[[[0, 1 / 2]]]])) \<subseteq> {1 / 20 ..< 19 / 20}"
    by simp
  with c x n r show ?thesis by blast
qed

text \<open>
  Claim C1. For a constraint \<open>c\<close> in \<open>(0, 1)\<close> and restricted values \<open>s\<close> in \<open>(0, 1)\<close> (as they
  are for pixel values in \<open>[0, 1]\<close> and noise in \<open>[0, 1)\<close>, by \<open>restricted_elems\<close>), the
  per-element log-Jacobian \<open>softplus l + softplus (- l) - softplus (- (ln c - ln (1 - c)))\<close>
  at \<open>l = ln s - ln (1 - s)\<close> is \<open>ln c - ln s - ln (1 - s)\<close>; the log-determinant that the
  forward direction returns is the sum of these closed forms over channel, height and
  width, one scalar per sample. The witness is the constant input \<open>0.5\<close> at the
  constraint \<open>0.9\<close>.
\<close>

theorem log_det_closed_form:
  assumes "0 < c" and "c < 1"
    and "elems (restrict_data c (dequantization x noise)) \<subseteq> {0<..<1}"
  shows "(\<forall>s \<in> elems (restrict_data c (dequantization x noise)).
            softplus (ln s - ln (1 - s)) + softplus (- (ln s - ln (1 - s)))
              - softplus (- (ln c - ln (1 - c))) = ln c - ln s - ln (1 - s))
       \<and> snd (logit_transform x c False noise)
           = PerSample (sum_dims_1_2_3
               (tmap (\<lambda>s. ln c - ln s - ln (1 - s)) (restrict_data c (dequantization x noise))))
       \<and> (length noise = length x \<longrightarrow>
            (\<exists>ld. snd (logit_transform x c False noise) = PerSample ld \<and> length ld = length x))"
proof -
  have elt: "softplus (ln s - ln (1 - s)) + softplus (- (ln s - ln (1 - s)))
              - softplus (- (ln c - ln (1 - c))) = ln c - ln s - ln (1 - s)"
    if "s \<in> elems (restrict_data c (dequantization x noise))" for s
  proof -
    from that assms(3) have "0 < s" "s < 1" by auto
    with assms(1,2) show ?thesis by (rule log_diag_J_closed_form)
  qed
  have sum: "snd (logit_transform x c False noise)
           = PerSample (sum_dims_1_2_3
               (tmap (\<lambda>s. ln c - ln s - ln (1 - s)) (restrict_data c (dequantization x noise))))"
    using assms by (simp add: logit_transform_forward log_det_jacobian_closed_form)
  have len: "\<exists>ld. snd (logit_transform x c False noise) = PerSample ld \<and> length ld = length x"
    if "length noise = length x"
    using that by (simp add: logit_transform_forward length_forward)
  from elt sum len show ?thesis by blast
qed

theorem log_det_closed_form_witness:
  "(0::real) < 9 / 10 \<and> (9 / 10 :: real) < 1
   \<and> elems (restrict_data (9 / 10) (dequantization [[[[1 / 2]]]] [[[[1 / 2]]]])) \<subseteq> {0<..<1}
   \<and> snd (logit_transform [[[[1 / 2]]]] (9 / 10) False [[[[1 / 2]]]])
       = PerSample [ln (9 / 10) - ln (1 / 2) - ln (1 / 2)]"
proof -
  have c: "(0::real) < 9 / 10" "(9 / 10 :: real) < 1" by simp_all
  have r: "restrict_data (9 / 10) (dequantization [[[[1 / 2]]]] [[[[1 / 2]]]]) = [[[[1 / 2]]]]"
    by (simp add: restrict_data_def dequantization_def tmap_def tmap2_def)
  have s: "elems (restrict_data (9 / 10) (dequantization [[[[1 / 2]]]] [[[[1 / 2]]]])) \<subseteq> {0<..<1}"
    unfolding r by (simp add: elems_def flatten_def)
  from log_det_closed_form[OF c s]
  have "snd (logit_transform [[[[1 / 2]]]] (9 / 10) False [[[[1 / 2]]]])
       = PerSample [ln (9 / 10) - ln (1 / 2) - ln (1 / 2)]"
    unfolding r by (simp add: sum_dims_1_2_3_def tmap_def)
  with c s show ?thesis by blast
qed

text \<open>
  Claim C2. For pixel values in \<open>[0, 1]\<close>, noise in \<open>[0, 1)\<close> and a constraint in \<open>(0, 1)\<close>, the
  reverse direction applied to the result of the forward direction returns the
  dequantized input \<open>(x * 255 + noise) / 256\<close>, exactly.
\<close>

theorem reverse_after_forward:
  assumes "0 < c" and "c < 1" and "elems x \<subseteq> {0..1}" and "elems noise \<subseteq> {0..<1}"
  shows "fst (logit_transform (fst (logit_transform x c False noise)) c True noise')
       = tmap2 (\<lambda>v n. (v * 255 + n) / 256) x noise"
proof -
  have "elems (restrict_data c (dequantization x noise)) \<subseteq> {(1 - c) / 2 ..< 1 - (1 - c) / 2}"
    using assms by (rule restricted_elems)
  moreover have "{(1 - c) / 2 ..< 1 - (1 - c) / 2} \<subseteq> {0<..<1}"
    using assms(1,2) by (auto simp: field_simps)
  ultimately have "elems (restrict_data c (dequantization x noise)) \<subseteq> {0<..<1}"
    by (rule subset_trans)
  moreover have "c \<noteq> 0" using assms(1) by simp
  ultimately have "fst (logit_transform (logit_data (restrict_data c (dequantization x noise))) c True noise')
      = dequantization x noise"
    by (intro reverse_forward)
  then show ?thesis
    by (simp add: logit_transform_forward dequantization_def)
qed

theorem reverse_after_forward_witness:
  "(0::real) < 9 / 10 \<and> (9 / 10 :: real) < 1
   \<and> elems [[[[0, 1]]]] \<subseteq> {0..1} \<and> elems [[[[0, 1 / 2]]]] \<subseteq> {0..<1}
   \<and> fst (logit_transform (fst (logit_transform [[[[0, 1]]]] (9 / 10) False [[[[0, 1 / 2]]]])) (9 / 10) True [])
       = [[[[0, 511 / 512]]]]"
proof -
  have c: "(0::real) < 9 / 10" "(9 / 10 :: real) < 1" by simp_all
  have x: "elems [[[[0, 1]]]] \<subseteq> {0..1}" by (simp add: elems_def flatten_def)
  have n: "elems [[[[0, 1 / 2]]]] \<subseteq> {0..<1}" by (simp add: elems_def flatten_def)
  from reverse_after_forward[OF c x n, of "[]"]
  have "fst (logit_transform (fst (logit_transform [[[[0, 1]]]] (9 / 10) False [[[[0, 1 / 2]]]])) (9 / 10) True [])
       = [[[[0, 511 / 512]]]]"
    by (simp add: tmap2_def)
  with c x n show ?thesis by blast
qed

section \<open>Properties of the dataset loading\<close>

lemma CelebA_getitem_nth:
  "i < length (file_paths self) \<Longrightarrow> CelebA_getitem self (int i) = Inr (image_id (file_paths self ! i))"
  by (simp add: CelebA_getitem_def Let_def)

lemma random_split_two:
  assumes "random_split randperm n [a, b] = Inr ps"
  shows "n = a + b \<and> ps = [Subset (take a (randperm (a + b))), Subset (take b (drop a (randperm (a + b))))]"
  using assms by (auto simp: random_split_def split: if_splits)

lemma load_cifar10:
  assumes "load d randperm ''cifar10'' = Inr (tr, va, info, d')"
  shows "cifar10_train d = Some 50000 \<and> tr = Subset (take 46000 (randperm 50000))
         \<and> va = Subset (take 4000 (drop 46000 (randperm 50000)))"
  using assms
  by (auto simp: load_def CIFAR10_def Let_def dest!: random_split_two
      split: option.splits sum.splits list.splits)

lemma load_imnet32:
  assumes "load d randperm ''imnet32'' = Inr (tr, va, info, d')"
  shows "image_folders d ''../../data/ImageNet32/train'' = Some 1281149
         \<and> tr = Subset (take 1250000 (randperm 1281149))
         \<and> va = Subset (take 31149 (drop 1250000 (randperm 1281149)))"
  using assms
  by (auto simp: load_def ImageFolder_def Let_def dest!: random_split_two
      split: option.splits sum.splits list.splits)

lemma load_imnet64:
  assumes "load d randperm ''imnet64'' = Inr (tr, va, info, d')"
  shows "image_folders d ''../../data/ImageNet64/train'' = Some 1281149
         \<and> tr = Subset (take 1250000 (randperm 1281149))
         \<and> va = Subset (take 31149 (drop 1250000 (randperm 1281149)))"
  using assms
  by (auto simp: load_def ImageFolder_def Let_def dest!: random_split_two
      split: option.splits sum.splits list.splits)

lemma load_celeba:
  assumes "load d randperm ''celeba'' = Inr (tr, va, info, d')"
  shows "\<exists>m. csv_files d' ''paths.csv'' = Some m
           \<and> tr = CelebA_split \<lparr>file_paths = filter (\<lambda>r. partition r = 0) m\<rparr>
           \<and> va = CelebA_split \<lparr>file_paths = filter (\<lambda>r. partition r = 1) m\<rparr>"
  using assms
  by (auto simp: load_def get_csv_def CelebA_init_def read_csv_def to_csv_def Let_def
      split: option.splits sum.splits if_splits)

lemma length_filter_three:
  "length (filter (\<lambda>r. partition r = 0) m) + length (filter (\<lambda>r. partition r = 1) m)
     + length (filter (\<lambda>r. partition r \<noteq> 0 \<and> partition r \<noteq> 1) m) = length m"
  by (induction m) auto

lemma load_unknown:
  assumes "nm \<noteq> ''cifar10''" "nm \<noteq> ''celeba''" "nm \<noteq> ''imnet32''" "nm \<noteq> ''imnet64''"
  shows "load d randperm nm = Inl UnboundLocalError"
  using assms by (simp add: load_def)


text \<open>
  Claim C5, as the code has it. When \<^verbatim>\<open>load\<close> returns, the sizes of the two splits are
  46000 and 4000 for cifar10 and sum to the length of the CIFAR-10 training set (which
  is then 50000); they are 1250000 and 31149 for imnet32 and imnet64 and sum to the
  number of images of the folder; for celeba they are the numbers of manifest rows of
  partition 0 and of partition 1, and sum to the number of rows of the manifest less
  the rows of any other partition (the test partition 2 is in neither split).
\<close>

theorem split_sizes:
  assumes "load d randperm nm = Inr (train_split, val_split, data_info, d')"
    and "\<forall>n. length (randperm n) = n"
  shows "(nm = ''cifar10'' \<longrightarrow>
            split_len train_split = 46000 \<and> split_len val_split = 4000
            \<and> cifar10_train d = Some (split_len train_split + split_len val_split))
       \<and> (nm = ''imnet32'' \<longrightarrow>
            split_len train_split = 1250000 \<and> split_len val_split = 31149
            \<and> image_folders d ''../../data/ImageNet32/train''
                = Some (split_len train_split + split_len val_split))
       \<and> (nm = ''imnet64'' \<longrightarrow>
            split_len train_split = 1250000 \<and> split_len val_split = 31149
            \<and> image_folders d ''../../data/ImageNet64/train''
                = Some (split_len train_split + split_len val_split))
       \<and> (nm = ''celeba'' \<longrightarrow>
            (\<exists>manifest. csv_files d' ''paths.csv'' = Some manifest
               \<and> split_len train_split = length (filter (\<lambda>r. partition r = 0) manifest)
               \<and> split_len val_split = length (filter (\<lambda>r. partition r = 1) manifest)
               \<and> split_len train_split + split_len val_split
                    + length (filter (\<lambda>r. partition r \<noteq> 0 \<and> partition r \<noteq> 1) manifest)
                  = length manifest))"
proof -
  have c1: "nm = ''cifar10'' \<longrightarrow>
            split_len train_split = 46000 \<and> split_len val_split = 4000
            \<and> cifar10_train d = Some (split_len train_split + split_len val_split)"
  proof
    assume nm: "nm = ''cifar10''"
    from load_cifar10[OF assms(1)[unfolded nm]] assms(2)
    show "split_len train_split = 46000 \<and> split_len val_split = 4000
        \<and> cifar10_train d = Some (split_len train_split + split_len val_split)"
      by simp
  qed
  have c2: "nm = ''imnet32'' \<longrightarrow>
            split_len train_split = 1250000 \<and> split_len val_split = 31149
            \<and> image_folders d ''../../data/ImageNet32/train''
                = Some (split_len train_split + split_len val_split)"
  proof
    assume nm: "nm = ''imnet32''"
    from load_imnet32[OF assms(1)[unfolded nm]] assms(2)
    show "split_len train_split = 1250000 \<and> split_len val_split = 31149
        \<and> image_folders d ''../../data/ImageNet32/train''
            = Some (split_len train_split + split_len val_split)"
      by simp
  qed
  have c3: "nm = ''imnet64'' \<longrightarrow>
            split_len train_split = 1250000 \<and> split_len val_split = 31149
            \<and> image_folders d ''../../data/ImageNet64/train''
                = Some (split_len train_split + split_len val_split)"
  proof
    assume nm: "nm = ''imnet64''"
    from load_imnet64[OF assms(1)[unfolded nm]] assms(2)
    show "split_len train_split = 1250000 \<and> split_len val_split = 31149
        \<and> image_folders d ''../../data/ImageNet64/train''
            = Some (split_len train_split + split_len val_split)"
      by simp
  qed
  have c4: "nm = ''celeba'' \<longrightarrow>
            (\<exists>manifest. csv_files d' ''paths.csv'' = Some manifest
               \<and> split_len train_split = length (filter (\<lambda>r. partition r = 0) manifest)
               \<and> split_len val_split = length (filter (\<lambda>r. partition r = 1) manifest)
               \<and> split_len train_split + split_len val_split
                    + length (filter (\<lambda>r. partition r \<noteq> 0 \<and> partition r \<noteq> 1) manifest)
                  = length manifest)"
  proof
    assume nm: "nm = ''celeba''"
    from load_celeba[OF assms(1)[unfolded nm]] obtain m where
      m: "csv_files d' ''paths.csv'' = Some m"
      and tr: "train_split = CelebA_split \<lparr>file_paths = filter (\<lambda>r. partition r = 0) m\<rparr>"
      and va: "val_split = CelebA_split \<lparr>file_paths = filter (\<lambda>r. partition r = 1) m\<rparr>"
      by blast
    show "\<exists>manifest. csv_files d' ''paths.csv'' = Some manifest
               \<and> split_len train_split = length (filter (\<lambda>r. partition r = 0) manifest)
               \<and> split_len val_split = length (filter (\<lambda>r. partition r = 1) manifest)
               \<and> split_len train_split + split_len val_split
                    + length (filter (\<lambda>r. partition r \<noteq> 0 \<and> partition r \<noteq> 1) manifest)
                  = length manifest"
      using m length_filter_three[of m] by (intro exI[of _ m]) (simp add: tr va CelebA_len_def)
  qed
  show ?thesis
    by (rule conjI, rule c1, rule conjI, rule c2, rule conjI, rule c3, rule c4)
qed

theorem split_sizes_witness:
  "load \<lparr>listing = Map.empty, csv_files = Map.empty, cifar10_train = Some 50000,
          image_folders = Map.empty\<rparr> (\<lambda>n. rev [0..<n]) ''cifar10''
     = Inr (Subset (take 46000 (rev [0..<50000])), Subset (take 4000 (drop 46000 (rev [0..<50000]))),
            \<lparr>name = ''cifar10'', channel = 3, size_hw = 32\<rparr>,
            \<lparr>listing = Map.empty, csv_files = Map.empty, cifar10_train = Some 50000,
              image_folders = Map.empty\<rparr>)
   \<and> split_len (Subset (take 46000 (rev [0..<50000]))) = 46000
   \<and> split_len (Subset (take 4000 (drop 46000 (rev [0..<50000])))) = 4000"
proof -
  have l: "load \<lparr>listing = Map.empty, csv_files = Map.empty, cifar10_train = Some 50000,
          image_folders = Map.empty\<rparr> (\<lambda>n. rev [0..<n]) ''cifar10''
     = Inr (Subset (take 46000 (rev [0..<50000])), Subset (take 4000 (drop 46000 (rev [0..<50000]))),
            \<lparr>name = ''cifar10'', channel = 3, size_hw = 32\<rparr>,
            \<lparr>listing = Map.empty, csv_files = Map.empty, cifar10_train = Some 50000,
              image_folders = Map.empty\<rparr>)"
    by (simp add: load_def CIFAR10_def random_split_def Let_def del: upt_rec_numeral)
  have p: "\<forall>n. length ((\<lambda>n. rev [0..<n]) n) = n" by simp
  from split_sizes[OF l p] l show ?thesis by simp
qed

text \<open>
  The claim as stated fails for celeba: with a manifest of three rows, one of each
  partition, the train and validation splits have one row each.
\<close>

theorem split_sizes_celeba_counterexample:
  "(case load \<lparr>listing = [''./img_align_celeba/img_align_celeba'' \<mapsto> [''3.jpg'', ''1.jpg'', ''2.jpg'']],
               csv_files = [''./celeb_A_dataset.csv'' \<mapsto>
                  [\<lparr>image_id = ''1.jpg'', partition = 0\<rparr>, \<lparr>image_id = ''2.jpg'', partition = 1\<rparr>,
                   \<lparr>image_id = ''3.jpg'', partition = 2\<rparr>]],
               cifar10_train = None, image_folders = Map.empty\<rparr> (\<lambda>n. [0..<n]) ''celeba'' of
      Inl e \<Rightarrow> False
    | Inr (train_split, val_split, data_info, d') \<Rightarrow>
        split_len train_split = 1 \<and> split_len val_split = 1
        \<and> map_option length (csv_files d' ''paths.csv'') = Some 3
        \<and> split_len train_split + split_len val_split \<noteq> 3)"
  by code_simp

text \<open>
  Claim C9. For a dataset name other than the four, \<^verbatim>\<open>load\<close> raises (the
  \<^verbatim>\<open>UnboundLocalError\<close> of its \<^verbatim>\<open>return\<close>) whatever the disk holds, and \<^verbatim>\<open>main\<close>, called with
  this name, ends with the same exception.
\<close>

theorem load_unknown_dataset_raises:
  assumes "nm \<notin> {''cifar10'', ''celeba'', ''imnet32'', ''imnet64''}"
  shows "load d randperm nm = Inl UnboundLocalError
       \<and> main d randperm flow (a\<lparr>dataset := nm\<rparr>) = Inl UnboundLocalError"
  using assms by (simp add: main_def load_unknown)

theorem load_unknown_dataset_raises_witness:
  "''mnist'' \<notin> {''cifar10'', ''celeba'', ''imnet32'', ''imnet64''}
   \<and> load \<lparr>listing = Map.empty, csv_files = Map.empty, cifar10_train = Some 50000,
            image_folders = Map.empty\<rparr> (\<lambda>n. [0..<n]) ''mnist'' = Inl UnboundLocalError
   \<and> main \<lparr>listing = Map.empty, csv_files = Map.empty, cifar10_train = Some 50000,
            image_folders = Map.empty\<rparr> (\<lambda>n. [0..<n])
        (\<lambda>e. \<lparr>train_batches = [], val_batches = [], samples = []\<rparr>)
        \<lparr>dataset = ''mnist'', batch_size = 16, max_epoch = 300, sample_size = 32\<rparr>
       = Inl UnboundLocalError"
proof -
  have h: "''mnist'' \<notin> {''cifar10'', ''celeba'', ''imnet32'', ''imnet64''}" by simp
  from load_unknown_dataset_raises[OF h,
      of "\<lparr>listing = Map.empty, csv_files = Map.empty, cifar10_train = Some 50000,
            image_folders = Map.empty\<rparr>" "\<lambda>n. [0..<n]"
         "\<lambda>e. \<lparr>train_batches = [], val_batches = [], samples = []\<rparr>"
         "\<lparr>dataset = ''mnist'', batch_size = 16, max_epoch = 300, sample_size = 32\<rparr>"]
    h show ?thesis by simp
qed

text \<open>
  Claim C10. For a split string other than \<^verbatim>\<open>train\<close>, \<^verbatim>\<open>val\<close> and \<^verbatim>\<open>test\<close>, the constructor of
  \<^verbatim>\<open>CelebA\<close> returns (no error) with all the rows of the manifest it read: the length of
  the dataset is the number of rows, and every position opens the image of its row.
\<close>

theorem CelebA_other_split_unfiltered:
  assumes "split_name \<notin> {''train'', ''val'', ''test''}"
    and "csv_files d csv_paths = Some manifest"
  shows "\<exists>self. CelebA_init d csv_paths split_name = Inr self
           \<and> file_paths self = manifest \<and> CelebA_len self = length manifest
           \<and> (\<forall>i < length manifest. CelebA_getitem self (int i) = Inr (image_id (manifest ! i)))"
  using assms by (simp add: CelebA_init_def read_csv_def CelebA_len_def CelebA_getitem_nth)

theorem CelebA_other_split_unfiltered_witness:
  "''all'' \<notin> {''train'', ''val'', ''test''}
   \<and> CelebA_init \<lparr>listing = Map.empty,
         csv_files = [''paths.csv'' \<mapsto>
            [\<lparr>image_id = ''a.jpg'', partition = 0\<rparr>, \<lparr>image_id = ''b.jpg'', partition = 1\<rparr>,
             \<lparr>image_id = ''c.jpg'', partition = 2\<rparr>]],
         cifar10_train = None, image_folders = Map.empty\<rparr> ''paths.csv'' ''all''
       = Inr \<lparr>file_paths = [\<lparr>image_id = ''a.jpg'', partition = 0\<rparr>, \<lparr>image_id = ''b.jpg'', partition = 1\<rparr>,
             \<lparr>image_id = ''c.jpg'', partition = 2\<rparr>]\<rparr>
   \<and> CelebA_len \<lparr>file_paths = [\<lparr>image_id = ''a.jpg'', partition = 0\<rparr>, \<lparr>image_id = ''b.jpg'', partition = 1\<rparr>,
             \<lparr>image_id = ''c.jpg'', partition = 2\<rparr>]\<rparr> = 3
   \<and> CelebA_getitem \<lparr>file_paths = [\<lparr>image_id = ''a.jpg'', partition = 0\<rparr>, \<lparr>image_id = ''b.jpg'', partition = 1\<rparr>,
             \<lparr>image_id = ''c.jpg'', partition = 2\<rparr>]\<rparr> 2 = Inr ''c.jpg''"
proof -
  have h: "''all'' \<notin> {''train'', ''val'', ''test''}" by simp
  have f: "csv_files \<lparr>listing = Map.empty,
         csv_files = [''paths.csv'' \<mapsto>
            [\<lparr>image_id = ''a.jpg'', partition = 0\<rparr>, \<lparr>image_id = ''b.jpg'', partition = 1\<rparr>,
             \<lparr>image_id = ''c.jpg'', partition = 2\<rparr>]],
         cifar10_train = None, image_folders = Map.empty\<rparr> ''paths.csv''
       = Some [\<lparr>image_id = ''a.jpg'', partition = 0\<rparr>, \<lparr>image_id = ''b.jpg'', partition = 1\<rparr>,
             \<lparr>image_id = ''c.jpg'', partition = 2\<rparr>]"
    by simp
  from CelebA_other_split_unfiltered[OF h f] obtain self where
    i: "CelebA_init \<lparr>listing = Map.empty,
         csv_files = [''paths.csv'' \<mapsto>
            [\<lparr>image_id = ''a.jpg'', partition = 0\<rparr>, \<lparr>image_id = ''b.jpg'', partition = 1\<rparr>,
             \<lparr>image_id = ''c.jpg'', partition = 2\<rparr>]],
         cifar10_train = None, image_folders = Map.empty\<rparr> ''paths.csv'' ''all'' = Inr self"
    and p: "file_paths self = [\<lparr>image_id = ''a.jpg'', partition = 0\<rparr>, \<lparr>image_id = ''b.jpg'', partition = 1\<rparr>,
             \<lparr>image_id = ''c.jpg'', partition = 2\<rparr>]"
    and n: "CelebA_len self = 3"
    and g: "\<forall>i < 3. CelebA_getitem self (int i) = Inr (image_id ([\<lparr>image_id = ''a.jpg'', partition = 0\<rparr>, \<lparr>image_id = ''b.jpg'', partition = 1\<rparr>,
             \<lparr>image_id = ''c.jpg'', partition = 2\<rparr>] ! i))"
    by auto
  from g[rule_format, of 2] have "CelebA_getitem self 2 = Inr ''c.jpg''"
    by simp
  with i p n h show ?thesis by (cases self) simp
qed

section \<open>Properties of the training procedure\<close>

lemma enumerate_Nil_iff: "enumerate n xs = [] \<longleftrightarrow> xs = []"
  by (cases xs) simp_all

lemma fst_last_enumerate: "xs \<noteq> [] \<Longrightarrow> fst (last (enumerate n xs)) = n + length xs - 1"
  by (induction xs arbitrary: n) (auto simp: enumerate_Nil_iff)

lemma map_snd_enumerate': "map (\<lambda>ib. f (snd ib)) (enumerate n xs) = map f xs"
proof -
  have "map (\<lambda>ib. f (snd ib)) (enumerate n xs) = map f (map snd (enumerate n xs))"
    by (simp only: map_map comp_def)
  then show ?thesis by (simp only: map_snd_enumerate)
qed

lemma train_batch_eq:
  "\<exists>q. train_batch a tr isz s (idx, b) =
      s\<lparr>running_loss := running_loss s + (- log_ll b + scale_reg * weight_scale b),
        running_log_ll := running_log_ll s + log_ll b,
        batch_idx := Some idx, out := out s @ q\<rparr>
     \<and> list_all is_batch_line q \<and> list_all (reports_formula (real_of_int isz)) q"
proof (cases "idx mod 1000 = 0")
  case True
  show ?thesis
    by (rule exI[of _ "[PrintBatch (int idx * batch_size a) (int (split_len tr))
            (- log_ll b + scale_reg * weight_scale b) (log_ll b)
            ((- log_ll b + ln 256 * real_of_int isz) / (real_of_int isz * ln 2))]"])
      (simp add: train_batch_def True emit_def Let_def bits_per_dim_formula_def)
next
  case False
  show ?thesis
    by (rule exI[of _ "[]"]) (simp add: train_batch_def False Let_def)
qed

lemma foldl_train_batch:
  "\<exists>ps. foldl (train_batch a tr isz) s ibs =
     s\<lparr>running_loss := running_loss s
          + sum_list (map (\<lambda>ib. - log_ll (snd ib) + scale_reg * weight_scale (snd ib)) ibs),
       running_log_ll := running_log_ll s + sum_list (map (\<lambda>ib. log_ll (snd ib)) ibs),
       batch_idx := (if ibs = [] then batch_idx s else Some (fst (last ibs))),
       out := out s @ ps\<rparr>
     \<and> list_all is_batch_line ps \<and> list_all (reports_formula (real_of_int isz)) ps"
proof (induction ibs arbitrary: s)
  case Nil
  show ?case by (intro exI[of _ "[]"]) simp
next
  case (Cons ib ibs)
  obtain idx b where ib: "ib = (idx, b)" by (cases ib)
  from train_batch_eq[of a tr isz s idx b] obtain q where
    q: "train_batch a tr isz s (idx, b) =
      s\<lparr>running_loss := running_loss s + (- log_ll b + scale_reg * weight_scale b),
        running_log_ll := running_log_ll s + log_ll b,
        batch_idx := Some idx, out := out s @ q\<rparr>"
    and q_ok: "list_all is_batch_line q" "list_all (reports_formula (real_of_int isz)) q"
    by blast
  define t where "t = train_batch a tr isz s (idx, b)"
  from Cons.IH[of t] obtain ps where
    ps: "foldl (train_batch a tr isz) t ibs =
     t\<lparr>running_loss := running_loss t
          + sum_list (map (\<lambda>ib. - log_ll (snd ib) + scale_reg * weight_scale (snd ib)) ibs),
       running_log_ll := running_log_ll t + sum_list (map (\<lambda>ib. log_ll (snd ib)) ibs),
       batch_idx := (if ibs = [] then batch_idx t else Some (fst (last ibs))),
       out := out t @ ps\<rparr>"
    and ps_ok: "list_all is_batch_line ps" "list_all (reports_formula (real_of_int isz)) ps"
    by blast
  have t: "t = s\<lparr>running_loss := running_loss s + (- log_ll b + scale_reg * weight_scale b),
        running_log_ll := running_log_ll s + log_ll b,
        batch_idx := Some idx, out := out s @ q\<rparr>"
    unfolding t_def by (rule q)
  have "foldl (train_batch a tr isz) s (ib # ibs) = foldl (train_batch a tr isz) t ibs"
    by (simp add: ib t_def)
  also have "\<dots> = s\<lparr>running_loss := running_loss s
          + sum_list (map (\<lambda>ib. - log_ll (snd ib) + scale_reg * weight_scale (snd ib)) (ib # ibs)),
       running_log_ll := running_log_ll s + sum_list (map (\<lambda>ib. log_ll (snd ib)) (ib # ibs)),
       batch_idx := (if ib # ibs = [] then batch_idx s else Some (fst (last (ib # ibs)))),
       out := out s @ (q @ ps)\<rparr>"
    unfolding ps unfolding t by (simp add: ib add.assoc)
  finally show ?case
    using q_ok ps_ok by (intro exI[of _ "q @ ps"]) simp
qed

lemma val_batch_eq:
  "val_batch s (idx, b) =
      s\<lparr>running_loss := running_loss s + (- log_ll b + scale_reg * weight_scale b),
        running_log_ll := running_log_ll s + log_ll b,
        batch_idx := Some idx\<rparr>"
  by (simp add: val_batch_def Let_def)

lemma foldl_val_batch:
  "foldl val_batch s ibs =
     s\<lparr>running_loss := running_loss s
          + sum_list (map (\<lambda>ib. - log_ll (snd ib) + scale_reg * weight_scale (snd ib)) ibs),
       running_log_ll := running_log_ll s + sum_list (map (\<lambda>ib. log_ll (snd ib)) ibs),
       batch_idx := (if ibs = [] then batch_idx s else Some (fst (last ibs)))\<rparr>"
proof (induction ibs arbitrary: s)
  case Nil
  show ?case by simp
next
  case (Cons ib ibs)
  obtain idx b where ib: "ib = (idx, b)" by (cases ib)
  define t where "t = val_batch s (idx, b)"
  have t: "t = s\<lparr>running_loss := running_loss s + (- log_ll b + scale_reg * weight_scale b),
        running_log_ll := running_log_ll s + log_ll b,
        batch_idx := Some idx\<rparr>"
    unfolding t_def by (rule val_batch_eq)
  have "foldl val_batch s (ib # ibs) = foldl val_batch t ibs"
    by (simp add: ib t_def)
  also have "\<dots> = s\<lparr>running_loss := running_loss s
          + sum_list (map (\<lambda>ib. - log_ll (snd ib) + scale_reg * weight_scale (snd ib)) (ib # ibs)),
       running_log_ll := running_log_ll s + sum_list (map (\<lambda>ib. log_ll (snd ib)) (ib # ibs)),
       batch_idx := (if ib # ibs = [] then batch_idx s else Some (fst (last (ib # ibs))))\<rparr>"
    unfolding Cons.IH[of t] unfolding t by (simp add: ib add.assoc)
  finally show ?case .
qed


lemma epoch_training_Inr:
  assumes "epoch_training a tr isz d s = Inr s1"
  obtains ps tl tll n where
    "s1 = s\<lparr>epoch := epoch s + 1, running_loss := 0, running_log_ll := 0,
            batch_idx := Some n, losses_train := losses_train s @ [tl],
            out := out s @ PrintEpoch (epoch s + 1) # ps
                    @ [PrintTrainAverage tl tll (bits_per_dim_formula tll (real_of_int isz))]\<rparr>"
    and "list_all is_batch_line ps" and "list_all (reports_formula (real_of_int isz)) ps"
proof -
  define s0 where "s0 = emit (PrintEpoch (epoch s + 1)) (s\<lparr>epoch := epoch s + 1\<rparr>)"
  from foldl_train_batch[of a tr isz s0 "enumerate 1 (train_batches d)"] obtain ps where
    f: "foldl (train_batch a tr isz) s0 (enumerate 1 (train_batches d)) =
     s0\<lparr>running_loss := running_loss s0
          + sum_list (map (\<lambda>ib. - log_ll (snd ib) + scale_reg * weight_scale (snd ib)) (enumerate 1 (train_batches d))),
       running_log_ll := running_log_ll s0 + sum_list (map (\<lambda>ib. log_ll (snd ib)) (enumerate 1 (train_batches d))),
       batch_idx := (if enumerate 1 (train_batches d) = [] then batch_idx s0
                     else Some (fst (last (enumerate 1 (train_batches d))))),
       out := out s0 @ ps\<rparr>"
    and ps_ok: "list_all is_batch_line ps" "list_all (reports_formula (real_of_int isz)) ps"
    by blast
  define s' where "s' = foldl (train_batch a tr isz) s0 (enumerate 1 (train_batches d))"
  from assms obtain n where n: "batch_idx s' = Some n"
    and s1: "s1 = (s'\<lparr>losses_train := losses_train s' @ [running_loss s' / real n]\<rparr>)
               \<lparr>out := out s' @ [PrintTrainAverage (running_loss s' / real n) (running_log_ll s' / real n)
                   ((- (running_log_ll s' / real n) + ln 256 * real_of_int isz) / (real_of_int isz * ln 2))],
                running_loss := 0, running_log_ll := 0\<rparr>"
    by (auto simp: epoch_training_def Let_def emit_def s'_def s0_def split: option.splits)
  show thesis
  proof (rule that[OF _ ps_ok])
    show "s1 = s\<lparr>epoch := epoch s + 1, running_loss := 0, running_log_ll := 0,
            batch_idx := Some n, losses_train := losses_train s @ [running_loss s' / real n],
            out := out s @ PrintEpoch (epoch s + 1) # ps
                    @ [PrintTrainAverage (running_loss s' / real n) (running_log_ll s' / real n)
                        (bits_per_dim_formula (running_log_ll s' / real n) (real_of_int isz))]\<rparr>"
      using n unfolding s1 unfolding s'_def f
      by (simp add: s0_def emit_def bits_per_dim_formula_def split: if_splits)
  qed
qed

lemma epoch_validating_Inr:
  assumes "epoch_validating a isz d s1 = Inr (s2, m)" and "running_log_ll s1 = 0"
  obtains vl n where
    "s2 = s1\<lparr>running_loss := 0, running_log_ll := 0, batch_idx := Some n,
             losses_val := losses_val s1 @ [vl],
             out := out s1 @ [PrintValAverage vl m (bits_per_dim_formula m (real_of_int isz)),
                              SaveLossCurves (losses_train s1) (losses_val s1 @ [vl]),
                              Sample (sample_size a)]
                     @ (if epoch s1 \<le> 15 \<or> epoch s1 = 25 \<or> epoch s1 = 35 \<or> epoch s1 = 45
                           \<or> epoch s1 mod 10 = 0
                        then [SaveImage (epoch s1) (fst (logit_transform (samples d) (9 / 10) True []))]
                        else [])
                     @ [SaveCheckpoint]\<rparr>"
    and "m = mean_val_log_ll d"
proof -
  define s' where "s' = foldl val_batch s1 (enumerate 1 (val_batches d))"
  have f: "s' = s1\<lparr>running_loss := running_loss s1
          + sum_list (map (\<lambda>ib. - log_ll (snd ib) + scale_reg * weight_scale (snd ib)) (enumerate 1 (val_batches d))),
       running_log_ll := running_log_ll s1 + sum_list (map (\<lambda>ib. log_ll (snd ib)) (enumerate 1 (val_batches d))),
       batch_idx := (if enumerate 1 (val_batches d) = [] then batch_idx s1
                     else Some (fst (last (enumerate 1 (val_batches d)))))\<rparr>"
    unfolding s'_def by (rule foldl_val_batch)
  from assms(1) obtain n where n: "batch_idx s' = Some n"
    and m: "m = running_log_ll s' / real n"
    and s2: "s2 = s'\<lparr>losses_val := losses_val s' @ [running_loss s' / real n],
               out := out s' @ [PrintValAverage (running_loss s' / real n) m
                   ((- m + ln 256 * real_of_int isz) / (real_of_int isz * ln 2)),
                   SaveLossCurves (losses_train s') (losses_val s' @ [running_loss s' / real n]),
                   Sample (sample_size a)]
                 @ (if epoch s' \<le> 15 \<or> epoch s' = 25 \<or> epoch s' = 35 \<or> epoch s' = 45
                           \<or> epoch s' mod 10 = 0
                    then [SaveImage (epoch s') (fst (logit_transform (samples d) (9 / 10) True []))]
                    else [])
                 @ [SaveCheckpoint],
               running_loss := 0, running_log_ll := 0\<rparr>"
    by (auto simp: epoch_validating_def Let_def emit_def s'_def split: option.splits prod.splits)
  have mean: "m = mean_val_log_ll d"
  proof (cases "val_batches d = []")
    case True
    then show ?thesis using assms(2) by (simp add: m f mean_val_log_ll_def)
  next
    case False
    with n have "n = length (val_batches d)"
      by (simp add: f enumerate_Nil_iff fst_last_enumerate)
    with False show ?thesis using assms(2) by (simp add: m f map_snd_enumerate' mean_val_log_ll_def)
  qed
  show thesis
  proof (rule that[OF _ mean])
    show "s2 = s1\<lparr>running_loss := 0, running_log_ll := 0, batch_idx := Some n,
             losses_val := losses_val s1 @ [running_loss s' / real n],
             out := out s1 @ [PrintValAverage (running_loss s' / real n) m (bits_per_dim_formula m (real_of_int isz)),
                              SaveLossCurves (losses_train s1) (losses_val s1 @ [running_loss s' / real n]),
                              Sample (sample_size a)]
                     @ (if epoch s1 \<le> 15 \<or> epoch s1 = 25 \<or> epoch s1 = 35 \<or> epoch s1 = 45
                           \<or> epoch s1 mod 10 = 0
                        then [SaveImage (epoch s1) (fst (logit_transform (samples d) (9 / 10) True []))]
                        else [])
                     @ [SaveCheckpoint]\<rparr>"
      using n unfolding s2 by (simp add: f bits_per_dim_formula_def split: if_splits)
  qed
qed


lemma epoch_body_Inr:
  assumes "epoch_body a tr isz d s = Inr (s', stop)"
  obtains ps tl tll vl n where
    "s' = s\<lparr>epoch := epoch s + 1, running_loss := 0, running_log_ll := 0,
            optimal_log_ll := (if gt (mean_val_log_ll d) (optimal_log_ll s)
                               then Finite (mean_val_log_ll d) else optimal_log_ll s),
            early_stop := (if gt (mean_val_log_ll d) (optimal_log_ll s) then 0 else early_stop s + 1),
            batch_idx := Some n,
            losses_train := losses_train s @ [tl], losses_val := losses_val s @ [vl],
            out := out s @ PrintEpoch (epoch s + 1) # ps
              @ [PrintTrainAverage tl tll (bits_per_dim_formula tll (real_of_int isz)),
                 PrintValAverage vl (mean_val_log_ll d)
                   (bits_per_dim_formula (mean_val_log_ll d) (real_of_int isz)),
                 SaveLossCurves (losses_train s @ [tl]) (losses_val s @ [vl]),
                 Sample (sample_size a)]
              @ (if epoch s + 1 \<le> 15 \<or> epoch s + 1 = 25 \<or> epoch s + 1 = 35 \<or> epoch s + 1 = 45
                    \<or> (epoch s + 1) mod 10 = 0
                 then [SaveImage (epoch s + 1) (fst (logit_transform (samples d) (9 / 10) True []))]
                 else [])
              @ SaveCheckpoint
              # (if gt (mean_val_log_ll d) (optimal_log_ll s)
                 then [SaveCheckpoint, PrintEarlyStop 0 (Finite (mean_val_log_ll d))]
                 else if early_stop s + 1 \<ge> 100 then []
                 else [PrintEarlyStop (early_stop s + 1) (optimal_log_ll s)])\<rparr>"
    and "stop \<longleftrightarrow> \<not> gt (mean_val_log_ll d) (optimal_log_ll s) \<and> early_stop s + 1 \<ge> 100"
    and "list_all is_batch_line ps" and "list_all (reports_formula (real_of_int isz)) ps"
proof -
  from assms obtain s1 s2 m where t: "epoch_training a tr isz d s = Inr s1"
    and v: "epoch_validating a isz d s1 = Inr (s2, m)"
    and e: "early_stopping_check m s2 = (s', stop)"
    by (auto simp: epoch_body_def split: sum.splits)
  from t obtain ps tl tll n1 where
    s1: "s1 = s\<lparr>epoch := epoch s + 1, running_loss := 0, running_log_ll := 0,
            batch_idx := Some n1, losses_train := losses_train s @ [tl],
            out := out s @ PrintEpoch (epoch s + 1) # ps
                    @ [PrintTrainAverage tl tll (bits_per_dim_formula tll (real_of_int isz))]\<rparr>"
    and ps: "list_all is_batch_line ps" "list_all (reports_formula (real_of_int isz)) ps"
    by (rule epoch_training_Inr)
  have "running_log_ll s1 = 0" by (simp add: s1)
  with v obtain vl n where
    s2: "s2 = s1\<lparr>running_loss := 0, running_log_ll := 0, batch_idx := Some n,
             losses_val := losses_val s1 @ [vl],
             out := out s1 @ [PrintValAverage vl m (bits_per_dim_formula m (real_of_int isz)),
                              SaveLossCurves (losses_train s1) (losses_val s1 @ [vl]),
                              Sample (sample_size a)]
                     @ (if epoch s1 \<le> 15 \<or> epoch s1 = 25 \<or> epoch s1 = 35 \<or> epoch s1 = 45
                           \<or> epoch s1 mod 10 = 0
                        then [SaveImage (epoch s1) (fst (logit_transform (samples d) (9 / 10) True []))]
                        else [])
                     @ [SaveCheckpoint]\<rparr>"
    and m: "m = mean_val_log_ll d"
    by (rule epoch_validating_Inr)
  have opt: "optimal_log_ll s2 = optimal_log_ll s" and es: "early_stop s2 = early_stop s"
    by (simp_all add: s2 s1)
  show thesis
  proof (rule that[OF _ _ ps])
    show "stop \<longleftrightarrow> \<not> gt (mean_val_log_ll d) (optimal_log_ll s) \<and> early_stop s + 1 \<ge> 100"
      using e unfolding early_stopping_check_def m opt es
      by (auto simp: Let_def split: if_splits)
    show "s' = s\<lparr>epoch := epoch s + 1, running_loss := 0, running_log_ll := 0,
            optimal_log_ll := (if gt (mean_val_log_ll d) (optimal_log_ll s)
                               then Finite (mean_val_log_ll d) else optimal_log_ll s),
            early_stop := (if gt (mean_val_log_ll d) (optimal_log_ll s) then 0 else early_stop s + 1),
            batch_idx := Some n,
            losses_train := losses_train s @ [tl], losses_val := losses_val s @ [vl],
            out := out s @ PrintEpoch (epoch s + 1) # ps
              @ [PrintTrainAverage tl tll (bits_per_dim_formula tll (real_of_int isz)),
                 PrintValAverage vl (mean_val_log_ll d)
                   (bits_per_dim_formula (mean_val_log_ll d) (real_of_int isz)),
                 SaveLossCurves (losses_train s @ [tl]) (losses_val s @ [vl]),
                 Sample (sample_size a)]
              @ (if epoch s + 1 \<le> 15 \<or> epoch s + 1 = 25 \<or> epoch s + 1 = 35 \<or> epoch s + 1 = 45
                    \<or> (epoch s + 1) mod 10 = 0
                 then [SaveImage (epoch s + 1) (fst (logit_transform (samples d) (9 / 10) True []))]
                 else [])
              @ SaveCheckpoint
              # (if gt (mean_val_log_ll d) (optimal_log_ll s)
                 then [SaveCheckpoint, PrintEarlyStop 0 (Finite (mean_val_log_ll d))]
                 else if early_stop s + 1 \<ge> 100 then []
                 else [PrintEarlyStop (early_stop s + 1) (optimal_log_ll s)])\<rparr>"
    proof (cases "gt (mean_val_log_ll d) (optimal_log_ll s)")
      case True
      with e have s': "s' = emit (PrintEarlyStop 0 (Finite (mean_val_log_ll d)))
          (emit SaveCheckpoint (s2\<lparr>early_stop := 0, optimal_log_ll := Finite (mean_val_log_ll d)\<rparr>))"
        unfolding early_stopping_check_def m opt es by (simp add: Let_def emit_def)
      show ?thesis
        unfolding s' s2 s1 m by (simp add: True emit_def)
    next
      case False
      show ?thesis
      proof (cases "early_stop s + 1 \<ge> 100")
        case True
        with False e have s': "s' = s2\<lparr>early_stop := early_stop s + 1\<rparr>"
          unfolding early_stopping_check_def m opt es by (simp add: Let_def)
        show ?thesis
          unfolding s' s2 s1 m using False True by (simp add: emit_def)
      next
        case nb: False
        with False e have s': "s' = emit (PrintEarlyStop (early_stop s + 1) (optimal_log_ll s))
            (s2\<lparr>early_stop := early_stop s + 1\<rparr>)"
          unfolding early_stopping_check_def m opt es by (simp add: Let_def emit_def opt)
        show ?thesis
          unfolding s' s2 s1 m using False nb by (simp add: emit_def)
      qed
    qed
  qed
qed

lemma main_loop_done: "\<not> epoch s < max_epoch a \<Longrightarrow> main_loop a tr isz flow s = Inr s"
  by (subst main_loop.simps) simp

lemma main_loop_error:
  "epoch s < max_epoch a \<Longrightarrow> epoch_body a tr isz (flow (epoch s + 1)) s = Inl e
   \<Longrightarrow> main_loop a tr isz flow s = Inl e"
  by (subst main_loop.simps) simp

lemma main_loop_break:
  "epoch s < max_epoch a \<Longrightarrow> epoch_body a tr isz (flow (epoch s + 1)) s = Inr (s', True)
   \<Longrightarrow> main_loop a tr isz flow s = Inr s'"
  by (subst main_loop.simps) simp

lemma main_loop_continue:
  "epoch s < max_epoch a \<Longrightarrow> epoch_body a tr isz (flow (epoch s + 1)) s = Inr (s', False)
   \<Longrightarrow> main_loop a tr isz flow s = main_loop a tr isz flow s'"
  by (subst main_loop.simps) simp


lemma epoch_body_progress:
  assumes "train_batches d \<noteq> []"
  shows "\<exists>s' stop. epoch_body a tr isz d s = Inr (s', stop)"
proof -
  define s0 where "s0 = emit (PrintEpoch (epoch s + 1)) (s\<lparr>epoch := epoch s + 1\<rparr>)"
  from foldl_train_batch[of a tr isz s0 "enumerate 1 (train_batches d)"] assms
  obtain n where "batch_idx (foldl (train_batch a tr isz) s0 (enumerate 1 (train_batches d))) = Some n"
    by (auto simp: enumerate_Nil_iff)
  then obtain s1 where t: "epoch_training a tr isz d s = Inr s1" and b: "batch_idx s1 = Some n"
    by (simp add: epoch_training_def Let_def s0_def emit_def)
  obtain k where "batch_idx (foldl val_batch s1 (enumerate 1 (val_batches d))) = Some k"
    using b by (cases "enumerate 1 (val_batches d) = []") (simp_all add: foldl_val_batch)
  then have "\<exists>s2 m. epoch_validating a isz d s1 = Inr (s2, m)"
    by (simp add: epoch_validating_def Let_def split: prod.splits)
  then obtain s2 m where "epoch_validating a isz d s1 = Inr (s2, m)"
    by blast
  with t show ?thesis
    by (cases "early_stopping_check m s2") (simp add: epoch_body_def)
qed

lemma main_loop_rule:
  assumes "main_loop a tr isz flow s = Inr fin"
    and "I s"
    and "\<And>t t' stop. I t \<Longrightarrow> epoch t < max_epoch a
           \<Longrightarrow> epoch_body a tr isz (flow (epoch t + 1)) t = Inr (t', stop)
           \<Longrightarrow> (if stop then Q t' else I t')"
    and "\<And>t. I t \<Longrightarrow> \<not> epoch t < max_epoch a \<Longrightarrow> Q t"
  shows "Q fin"
  using assms
proof (induction a tr isz flow s rule: main_loop.induct)
  case (1 a tr isz flow s)
  note run = "1.prems"(1) and I = "1.prems"(2) and step = "1.prems"(3) and exit = "1.prems"(4)
  show ?case
  proof (cases "epoch s < max_epoch a")
    case False
    with run have "fin = s" by (simp add: main_loop_done)
    with exit[OF I False] show ?thesis by simp
  next
    case True
    show ?thesis
    proof (cases "epoch_body a tr isz (flow (epoch s + 1)) s")
      case (Inl e)
      with True run show ?thesis by (simp add: main_loop_error)
    next
      case (Inr r)
      obtain s' stop where r: "r = (s', stop)" by (cases r)
      note body = Inr[unfolded r]
      show ?thesis
      proof (cases stop)
        case True
        with \<open>epoch s < max_epoch a\<close> body run have "fin = s'"
          by (simp add: main_loop_break)
        with step[OF I \<open>epoch s < max_epoch a\<close> body] True
        show ?thesis by simp
      next
        case False
        with \<open>epoch s < max_epoch a\<close> body run
        have run': "main_loop a tr isz flow s' = Inr fin"
          by (simp add: main_loop_continue)
        from step[OF I \<open>epoch s < max_epoch a\<close> body] False
        have "I s'" by simp
        from "1.IH"[OF \<open>epoch s < max_epoch a\<close> Inr r[symmetric] False run' this step exit]
        show ?thesis .
      qed
    qed
  qed
qed

lemma main_loop_returns:
  assumes "\<forall>e. train_batches (flow e) \<noteq> []"
  shows "\<exists>fin. main_loop a tr isz flow s = Inr fin"
  using assms
proof (induction a tr isz flow s rule: main_loop.induct)
  case (1 a tr isz flow s)
  show ?case
  proof (cases "epoch s < max_epoch a")
    case False
    then show ?thesis by (simp add: main_loop_done)
  next
    case True
    from "1.prems" have "train_batches (flow (epoch s + 1)) \<noteq> []" by simp
    from epoch_body_progress[OF this, of a tr isz s] obtain s' stop where
      body: "epoch_body a tr isz (flow (epoch s + 1)) s = Inr (s', stop)" by blast
    show ?thesis
    proof (cases stop)
      case True
      with \<open>epoch s < max_epoch a\<close> body show ?thesis by (simp add: main_loop_break)
    next
      case False
      from "1.IH"[OF True body refl False "1.prems"] obtain fin where
        "main_loop a tr isz flow s' = Inr fin" by blast
      with True body False show ?thesis by (simp add: main_loop_continue)
    qed
  qed
qed

lemma map_filter_append: "List.map_filter f (xs @ ys) = List.map_filter f xs @ List.map_filter f ys"
  by (simp add: List.map_filter_def)

lemma batch_lines_no_grid: "list_all is_batch_line ps \<Longrightarrow> List.map_filter grid_of ps = []"
proof (induction ps)
  case Nil
  show ?case by (simp add: List.map_filter_simps)
next
  case (Cons ev ps)
  then show ?case by (cases ev) (simp_all add: List.map_filter_simps)
qed

lemma batch_lines_no_sample: "list_all is_batch_line ps \<Longrightarrow> List.map_filter sample_of ps = []"
proof (induction ps)
  case Nil
  show ?case by (simp add: List.map_filter_simps)
next
  case (Cons ev ps)
  then show ?case by (cases ev) (simp_all add: List.map_filter_simps)
qed

lemma batch_lines_no_checkpoint: "list_all is_batch_line ps \<Longrightarrow> filter checkpoint_or_epoch ps = []"
proof (induction ps)
  case Nil
  show ?case by simp
next
  case (Cons ev ps)
  then show ?case by (cases ev) simp_all
qed

lemma epoch_body_epoch:
  assumes "epoch_body a tr isz d s = Inr (s', stop)"
  shows "epoch s' = epoch s + 1"
  using assms by (rule epoch_body_Inr) simp

lemma epoch_body_early_stop:
  assumes "epoch_body a tr isz d s = Inr (s', stop)"
  shows "early_stop s' = (if gt (mean_val_log_ll d) (optimal_log_ll s) then 0 else early_stop s + 1)"
    and "optimal_log_ll s' = (if gt (mean_val_log_ll d) (optimal_log_ll s)
                               then Finite (mean_val_log_ll d) else optimal_log_ll s)"
    and "stop \<longleftrightarrow> \<not> gt (mean_val_log_ll d) (optimal_log_ll s) \<and> early_stop s + 1 \<ge> 100"
  using assms by (rule epoch_body_Inr, simp)+

lemma batch_lines_count_checkpoint: "list_all is_batch_line ps \<Longrightarrow> count_list ps SaveCheckpoint = 0"
proof (induction ps)
  case Nil
  show ?case by simp
next
  case (Cons ev ps)
  then show ?case by (cases ev) simp_all
qed

lemma epoch_body_projections:
  assumes "epoch_body a tr isz d s = Inr (s', stop)"
  shows "List.map_filter grid_of (out s') = List.map_filter grid_of (out s)
           @ (if epoch s + 1 \<le> 15 \<or> epoch s + 1 = 25 \<or> epoch s + 1 = 35 \<or> epoch s + 1 = 45
                    \<or> (epoch s + 1) mod 10 = 0
              then [(epoch s + 1, fst (logit_transform (samples d) (9 / 10) True []))] else [])"
    and "List.map_filter sample_of (out s') = List.map_filter sample_of (out s) @ [sample_size a]"
    and "filter checkpoint_or_epoch (events_since s s') =
           PrintEpoch (epoch s + 1) # SaveCheckpoint
           # (if gt (mean_val_log_ll d) (optimal_log_ll s)
              then [SaveCheckpoint, PrintEarlyStop 0 (Finite (mean_val_log_ll d))]
              else if early_stop s + 1 \<ge> 100 then []
              else [PrintEarlyStop (early_stop s + 1) (optimal_log_ll s)])"
    and "count_list (events_since s s') SaveCheckpoint
           = (if gt (mean_val_log_ll d) (optimal_log_ll s) then 2 else 1)"
    and "list_all (reports_formula (real_of_int isz)) (events_since s s')"
    and "\<exists>loss. PrintValAverage loss (mean_val_log_ll d)
                  (bits_per_dim_formula (mean_val_log_ll d) (real_of_int isz))
                \<in> set (events_since s s')"
proof -
  from assms obtain ps tl tll vl n where
    s': "s' = s\<lparr>epoch := epoch s + 1, running_loss := 0, running_log_ll := 0,
            optimal_log_ll := (if gt (mean_val_log_ll d) (optimal_log_ll s)
                               then Finite (mean_val_log_ll d) else optimal_log_ll s),
            early_stop := (if gt (mean_val_log_ll d) (optimal_log_ll s) then 0 else early_stop s + 1),
            batch_idx := Some n,
            losses_train := losses_train s @ [tl], losses_val := losses_val s @ [vl],
            out := out s @ PrintEpoch (epoch s + 1) # ps
              @ [PrintTrainAverage tl tll (bits_per_dim_formula tll (real_of_int isz)),
                 PrintValAverage vl (mean_val_log_ll d)
                   (bits_per_dim_formula (mean_val_log_ll d) (real_of_int isz)),
                 SaveLossCurves (losses_train s @ [tl]) (losses_val s @ [vl]),
                 Sample (sample_size a)]
              @ (if epoch s + 1 \<le> 15 \<or> epoch s + 1 = 25 \<or> epoch s + 1 = 35 \<or> epoch s + 1 = 45
                    \<or> (epoch s + 1) mod 10 = 0
                 then [SaveImage (epoch s + 1) (fst (logit_transform (samples d) (9 / 10) True []))]
                 else [])
              @ SaveCheckpoint
              # (if gt (mean_val_log_ll d) (optimal_log_ll s)
                 then [SaveCheckpoint, PrintEarlyStop 0 (Finite (mean_val_log_ll d))]
                 else if early_stop s + 1 \<ge> 100 then []
                 else [PrintEarlyStop (early_stop s + 1) (optimal_log_ll s)])\<rparr>"
    and ps: "list_all is_batch_line ps" "list_all (reports_formula (real_of_int isz)) ps"
    by (rule epoch_body_Inr)
  show "List.map_filter grid_of (out s') = List.map_filter grid_of (out s)
           @ (if epoch s + 1 \<le> 15 \<or> epoch s + 1 = 25 \<or> epoch s + 1 = 35 \<or> epoch s + 1 = 45
                    \<or> (epoch s + 1) mod 10 = 0
              then [(epoch s + 1, fst (logit_transform (samples d) (9 / 10) True []))] else [])"
    unfolding s' using batch_lines_no_grid[OF ps(1)]
    by (simp add: map_filter_append List.map_filter_simps)
  show "List.map_filter sample_of (out s') = List.map_filter sample_of (out s) @ [sample_size a]"
    unfolding s' using batch_lines_no_sample[OF ps(1)]
    by (simp add: map_filter_append List.map_filter_simps)
  show "filter checkpoint_or_epoch (events_since s s') =
           PrintEpoch (epoch s + 1) # SaveCheckpoint
           # (if gt (mean_val_log_ll d) (optimal_log_ll s)
              then [SaveCheckpoint, PrintEarlyStop 0 (Finite (mean_val_log_ll d))]
              else if early_stop s + 1 \<ge> 100 then []
              else [PrintEarlyStop (early_stop s + 1) (optimal_log_ll s)])"
    unfolding s' events_since_def using batch_lines_no_checkpoint[OF ps(1)]
    by simp
  show "count_list (events_since s s') SaveCheckpoint
           = (if gt (mean_val_log_ll d) (optimal_log_ll s) then 2 else 1)"
    unfolding s' events_since_def using batch_lines_count_checkpoint[OF ps(1)]
    by simp
  show "list_all (reports_formula (real_of_int isz)) (events_since s s')"
    unfolding s' events_since_def using ps(2)
    by simp
  show "\<exists>loss. PrintValAverage loss (mean_val_log_ll d)
                  (bits_per_dim_formula (mean_val_log_ll d) (real_of_int isz))
                \<in> set (events_since s s')"
    unfolding s' events_since_def
    by (intro exI[of _ vl]) simp
qed

lemma out_events_since:
  assumes "epoch_body a tr isz d s = Inr (s', stop)"
  shows "out s' = out s @ events_since s s'"
  using assms by (rule epoch_body_Inr) (simp add: events_since_def)

lemma counter_bounds: "0 \<le> snd (best_and_counter flow n) \<and> snd (best_and_counter flow n) \<le> int n"
  by (induction n) (auto simp: Let_def split: prod.splits)

lemma counter_consecutive:
  "n - nat (snd (best_and_counter flow n)) < j \<Longrightarrow> j \<le> n
   \<Longrightarrow> \<not> gt (mean_val_log_ll (flow (int j))) (fst (best_and_counter flow (j - 1)))"
proof (induction n)
  case 0
  then show ?case by simp
next
  case (Suc n)
  obtain best c where bc: "best_and_counter flow n = (best, c)"
    by (cases "best_and_counter flow n")
  from counter_bounds[of flow n] bc have c: "0 \<le> c" "c \<le> int n" by simp_all
  show ?case
  proof (cases "gt (mean_val_log_ll (flow (int (Suc n)))) best")
    case True
    with Suc.prems bc show ?thesis by simp
  next
    case False
    with bc have "snd (best_and_counter flow (Suc n)) = c + 1" by simp
    with Suc.prems c have j: "n - nat c < j" "j \<le> Suc n" by (simp_all add: nat_add_distrib)
    show ?thesis
    proof (cases "j = Suc n")
      case True
      with False bc show ?thesis by simp
    next
      case False
      with j have "j \<le> n" by simp
      with Suc.IH j(1) bc show ?thesis by simp
    qed
  qed
qed

lemma main_loop_bookkeeping:
  assumes "main_loop a tr isz flow initial_state = Inr fin"
  shows "0 \<le> epoch fin \<and> epoch fin \<le> max 0 (max_epoch a)
       \<and> (optimal_log_ll fin, early_stop fin) = best_and_counter flow (nat (epoch fin))
       \<and> (\<forall>n < nat (epoch fin). snd (best_and_counter flow n) < 100)
       \<and> (epoch fin = max 0 (max_epoch a) \<or> early_stop fin = 100)"
proof (rule main_loop_rule[OF assms, where
      I = "\<lambda>t. 0 \<le> epoch t \<and> epoch t \<le> max 0 (max_epoch a)
       \<and> (optimal_log_ll t, early_stop t) = best_and_counter flow (nat (epoch t))
       \<and> (\<forall>n \<le> nat (epoch t). snd (best_and_counter flow n) < 100)"])
  show "0 \<le> epoch initial_state \<and> epoch initial_state \<le> max 0 (max_epoch a)
       \<and> (optimal_log_ll initial_state, early_stop initial_state)
           = best_and_counter flow (nat (epoch initial_state))
       \<and> (\<forall>n \<le> nat (epoch initial_state). snd (best_and_counter flow n) < 100)"
    by (simp add: initial_state_def)
next
  fix t
  assume "0 \<le> epoch t \<and> epoch t \<le> max 0 (max_epoch a)
       \<and> (optimal_log_ll t, early_stop t) = best_and_counter flow (nat (epoch t))
       \<and> (\<forall>n \<le> nat (epoch t). snd (best_and_counter flow n) < 100)"
    and "\<not> epoch t < max_epoch a"
  then show "0 \<le> epoch t \<and> epoch t \<le> max 0 (max_epoch a)
       \<and> (optimal_log_ll t, early_stop t) = best_and_counter flow (nat (epoch t))
       \<and> (\<forall>n < nat (epoch t). snd (best_and_counter flow n) < 100)
       \<and> (epoch t = max 0 (max_epoch a) \<or> early_stop t = 100)"
    by auto
next
  fix t t' stop
  assume I: "0 \<le> epoch t \<and> epoch t \<le> max 0 (max_epoch a)
       \<and> (optimal_log_ll t, early_stop t) = best_and_counter flow (nat (epoch t))
       \<and> (\<forall>n \<le> nat (epoch t). snd (best_and_counter flow n) < 100)"
    and lt: "epoch t < max_epoch a"
    and body: "epoch_body a tr isz (flow (epoch t + 1)) t = Inr (t', stop)"
  define k where "k = nat (epoch t)"
  from I have k: "epoch t = int k" by (simp add: k_def)
  have e': "epoch t' = int (Suc k)" using epoch_body_epoch[OF body] k by simp
  from I have bc: "best_and_counter flow k = (optimal_log_ll t, early_stop t)"
    by (simp add: k_def)
  from I have small: "\<forall>n \<le> k. snd (best_and_counter flow n) < 100" by (simp add: k_def)
  with bc have es: "early_stop t < 100" by (metis order_refl snd_conv)
  have "epoch t + 1 = int (Suc k)" using k by simp
  then have flow_k: "flow (epoch t + 1) = flow (int (Suc k))" by (rule arg_cong)
  note f = epoch_body_early_stop[OF body, unfolded flow_k]
  have bc': "(optimal_log_ll t', early_stop t') = best_and_counter flow (Suc k)"
    using f(1,2) bc by simp
  have range: "0 \<le> epoch t' \<and> epoch t' \<le> max 0 (max_epoch a)"
    using e' lt k by simp
  have ne: "nat (epoch t') = Suc k" using e' by simp
  show "if stop
        then 0 \<le> epoch t' \<and> epoch t' \<le> max 0 (max_epoch a)
          \<and> (optimal_log_ll t', early_stop t') = best_and_counter flow (nat (epoch t'))
          \<and> (\<forall>n < nat (epoch t'). snd (best_and_counter flow n) < 100)
          \<and> (epoch t' = max 0 (max_epoch a) \<or> early_stop t' = 100)
        else 0 \<le> epoch t' \<and> epoch t' \<le> max 0 (max_epoch a)
          \<and> (optimal_log_ll t', early_stop t') = best_and_counter flow (nat (epoch t'))
          \<and> (\<forall>n \<le> nat (epoch t'). snd (best_and_counter flow n) < 100)"
  proof (cases stop)
    case True
    with f(1,3) es have "early_stop t' = 100" by (simp split: if_splits)
    moreover have "\<forall>n < nat (epoch t'). snd (best_and_counter flow n) < 100"
      using small ne by (simp add: less_Suc_eq_le del: best_and_counter.simps)
    ultimately show ?thesis using True range bc' ne by (simp del: best_and_counter.simps)
  next
    case False
    with f(1,3) have "early_stop t' < 100" by (simp split: if_splits)
    with bc' have "snd (best_and_counter flow (Suc k)) < 100" by (metis snd_conv)
    with small have "\<forall>n \<le> Suc k. snd (best_and_counter flow n) < 100"
      by (simp add: le_Suc_eq del: best_and_counter.simps)
    then show ?thesis using False range bc' ne by (simp del: best_and_counter.simps)
  qed
qed


lemma main_loop_grid:
  assumes "main_loop a tr isz flow initial_state = Inr fin"
  shows "0 \<le> epoch fin
       \<and> List.map_filter grid_of (out fin)
           = map (\<lambda>e. (e, fst (logit_transform (samples (flow e)) (9 / 10) True [])))
               (filter (\<lambda>e. e \<le> 15 \<or> e = 25 \<or> e = 35 \<or> e = 45 \<or> e mod 10 = 0) [1..epoch fin])
       \<and> List.map_filter sample_of (out fin) = replicate (nat (epoch fin)) (sample_size a)"
proof (rule main_loop_rule[OF assms, where
      I = "\<lambda>t. 0 \<le> epoch t
       \<and> List.map_filter grid_of (out t)
           = map (\<lambda>e. (e, fst (logit_transform (samples (flow e)) (9 / 10) True [])))
               (filter (\<lambda>e. e \<le> 15 \<or> e = 25 \<or> e = 35 \<or> e = 45 \<or> e mod 10 = 0) [1..epoch t])
       \<and> List.map_filter sample_of (out t) = replicate (nat (epoch t)) (sample_size a)"])
  show "0 \<le> epoch initial_state
       \<and> List.map_filter grid_of (out initial_state)
           = map (\<lambda>e. (e, fst (logit_transform (samples (flow e)) (9 / 10) True [])))
               (filter (\<lambda>e. e \<le> 15 \<or> e = 25 \<or> e = 35 \<or> e = 45 \<or> e mod 10 = 0)
                  [1..epoch initial_state])
       \<and> List.map_filter sample_of (out initial_state)
           = replicate (nat (epoch initial_state)) (sample_size a)"
    by (simp add: initial_state_def List.map_filter_simps)
next
  fix t
  assume "0 \<le> epoch t
       \<and> List.map_filter grid_of (out t)
           = map (\<lambda>e. (e, fst (logit_transform (samples (flow e)) (9 / 10) True [])))
               (filter (\<lambda>e. e \<le> 15 \<or> e = 25 \<or> e = 35 \<or> e = 45 \<or> e mod 10 = 0) [1..epoch t])
       \<and> List.map_filter sample_of (out t) = replicate (nat (epoch t)) (sample_size a)"
  then show "0 \<le> epoch t
       \<and> List.map_filter grid_of (out t)
           = map (\<lambda>e. (e, fst (logit_transform (samples (flow e)) (9 / 10) True [])))
               (filter (\<lambda>e. e \<le> 15 \<or> e = 25 \<or> e = 35 \<or> e = 45 \<or> e mod 10 = 0) [1..epoch t])
       \<and> List.map_filter sample_of (out t) = replicate (nat (epoch t)) (sample_size a)" .
next
  fix t t' stop
  assume I: "0 \<le> epoch t
       \<and> List.map_filter grid_of (out t)
           = map (\<lambda>e. (e, fst (logit_transform (samples (flow e)) (9 / 10) True [])))
               (filter (\<lambda>e. e \<le> 15 \<or> e = 25 \<or> e = 35 \<or> e = 45 \<or> e mod 10 = 0) [1..epoch t])
       \<and> List.map_filter sample_of (out t) = replicate (nat (epoch t)) (sample_size a)"
    and body: "epoch_body a tr isz (flow (epoch t + 1)) t = Inr (t', stop)"
  have e': "epoch t' = epoch t + 1" using body by (rule epoch_body_epoch)
  have up: "[1..epoch t + 1] = [1..epoch t] @ [epoch t + 1]"
    using I upto_rec2[of 1 "epoch t + 1"] by simp
  have rep: "replicate (nat (epoch t + 1)) (sample_size a)
      = replicate (nat (epoch t)) (sample_size a) @ [sample_size a]"
    using I by (simp add: nat_add_distrib replicate_append_same)
  have J: "0 \<le> epoch t'
       \<and> List.map_filter grid_of (out t')
           = map (\<lambda>e. (e, fst (logit_transform (samples (flow e)) (9 / 10) True [])))
               (filter (\<lambda>e. e \<le> 15 \<or> e = 25 \<or> e = 35 \<or> e = 45 \<or> e mod 10 = 0) [1..epoch t'])
       \<and> List.map_filter sample_of (out t') = replicate (nat (epoch t')) (sample_size a)"
    unfolding e' up rep epoch_body_projections(1,2)[OF body]
    using I by simp
  then show "if stop
        then 0 \<le> epoch t'
          \<and> List.map_filter grid_of (out t')
              = map (\<lambda>e. (e, fst (logit_transform (samples (flow e)) (9 / 10) True [])))
                  (filter (\<lambda>e. e \<le> 15 \<or> e = 25 \<or> e = 35 \<or> e = 45 \<or> e mod 10 = 0) [1..epoch t'])
          \<and> List.map_filter sample_of (out t') = replicate (nat (epoch t')) (sample_size a)
        else 0 \<le> epoch t'
          \<and> List.map_filter grid_of (out t')
              = map (\<lambda>e. (e, fst (logit_transform (samples (flow e)) (9 / 10) True [])))
                  (filter (\<lambda>e. e \<le> 15 \<or> e = 25 \<or> e = 35 \<or> e = 45 \<or> e mod 10 = 0) [1..epoch t'])
          \<and> List.map_filter sample_of (out t') = replicate (nat (epoch t')) (sample_size a)"
    by simp
qed

lemma main_loop_reports:
  assumes "main_loop a tr isz flow initial_state = Inr fin"
  shows "list_all (reports_formula (real_of_int isz)) (out fin)"
proof (rule main_loop_rule[OF assms, where
      I = "\<lambda>t. list_all (reports_formula (real_of_int isz)) (out t)"])
  show "list_all (reports_formula (real_of_int isz)) (out initial_state)"
    by (simp add: initial_state_def)
next
  fix t
  assume "list_all (reports_formula (real_of_int isz)) (out t)"
  then show "list_all (reports_formula (real_of_int isz)) (out t)" .
next
  fix t t' stop
  assume I: "list_all (reports_formula (real_of_int isz)) (out t)"
    and body: "epoch_body a tr isz (flow (epoch t + 1)) t = Inr (t', stop)"
  from I epoch_body_projections(5)[OF body]
  have "list_all (reports_formula (real_of_int isz)) (out t')"
    unfolding out_events_since[OF body] by simp
  then show "if stop then list_all (reports_formula (real_of_int isz)) (out t')
             else list_all (reports_formula (real_of_int isz)) (out t')"
    by simp
qed

lemma ln_256: "ln (256::real) = 8 * ln 2"
proof -
  have "ln ((2::real) ^ 8) = real 8 * ln 2" by (rule ln_realpow)
  then show ?thesis by simp
qed

lemmas run_defs =
  initial_state_def epoch_body_def epoch_training_def epoch_validating_def
  early_stopping_check_def train_batch_def val_batch_def emit_def Let_def scale_reg_def
  logit_transform_def tmap_def

text \<open>
  Claim C3, as the code has it. In every epoch that completes, the checkpoint file is
  written once after the validation, whether or not the epoch improved (line 179), and
  once more when the mean validation log-likelihood of the epoch improves on the best
  value so far, which it then replaces, the early-stop counter being reset to zero; an
  epoch without improvement increments the counter and leaves the best value as it is.
  Of the events of the epoch, those that are the epoch line, a checkpoint or the
  early-stopping line are listed in their order, and the mean validation
  log-likelihood is the one the epoch prints.
\<close>

theorem checkpoint_every_epoch:
  assumes "epoch_body a train_split image_size d s = Inr (s', stop)"
  shows "count_list (events_since s s') SaveCheckpoint
           = (if gt (mean_val_log_ll d) (optimal_log_ll s) then 2 else 1)
       \<and> early_stop s' = (if gt (mean_val_log_ll d) (optimal_log_ll s) then 0 else early_stop s + 1)
       \<and> optimal_log_ll s' = (if gt (mean_val_log_ll d) (optimal_log_ll s)
                                then Finite (mean_val_log_ll d) else optimal_log_ll s)
       \<and> filter checkpoint_or_epoch (events_since s s') =
           PrintEpoch (epoch s + 1) # SaveCheckpoint
           # (if gt (mean_val_log_ll d) (optimal_log_ll s)
              then [SaveCheckpoint, PrintEarlyStop 0 (Finite (mean_val_log_ll d))]
              else if early_stop s + 1 \<ge> 100 then []
              else [PrintEarlyStop (early_stop s + 1) (optimal_log_ll s)])
       \<and> (\<exists>loss. PrintValAverage loss (mean_val_log_ll d)
                   (bits_per_dim_formula (mean_val_log_ll d) (real_of_int image_size))
                 \<in> set (events_since s s'))"
  using epoch_body_projections(3,4,6)[OF assms] epoch_body_early_stop(1,2)[OF assms]
  by simp

theorem checkpoint_every_epoch_witness:
  "epoch_body \<lparr>dataset = ''cifar10'', batch_size = 16, max_epoch = 2, sample_size = 32\<rparr>
     (Subset [0]) 3072
     \<lparr>train_batches = [\<lparr>log_ll = 0, weight_scale = 0\<rparr>],
      val_batches = [\<lparr>log_ll = - 1, weight_scale = 0\<rparr>], samples = []\<rparr>
     (initial_state\<lparr>epoch := 1, optimal_log_ll := Finite 0, batch_idx := Some 1\<rparr>)
   = Inr (\<lparr>epoch = 2, running_loss = 0, running_log_ll = 0, optimal_log_ll = Finite 0,
           early_stop = 1, batch_idx = Some 1, losses_train = [0], losses_val = [1],
           out = [PrintEpoch 2, PrintTrainAverage 0 0 8,
                  PrintValAverage 1 (- 1) (bits_per_dim_formula (- 1) 3072),
                  SaveLossCurves [0] [1], Sample 32, SaveImage 2 [], SaveCheckpoint,
                  PrintEarlyStop 1 (Finite 0)]\<rparr>, False)
   \<and> count_list
        (events_since (initial_state\<lparr>epoch := 1, optimal_log_ll := Finite 0, batch_idx := Some 1\<rparr>)
           \<lparr>epoch = 2, running_loss = 0, running_log_ll = 0, optimal_log_ll = Finite 0,
            early_stop = 1, batch_idx = Some 1, losses_train = [0], losses_val = [1],
            out = [PrintEpoch 2, PrintTrainAverage 0 0 8,
                   PrintValAverage 1 (- 1) (bits_per_dim_formula (- 1) 3072),
                   SaveLossCurves [0] [1], Sample 32, SaveImage 2 [], SaveCheckpoint,
                   PrintEarlyStop 1 (Finite 0)]\<rparr>) SaveCheckpoint = 1"
proof -
  have body: "epoch_body \<lparr>dataset = ''cifar10'', batch_size = 16, max_epoch = 2, sample_size = 32\<rparr>
     (Subset [0]) 3072
     \<lparr>train_batches = [\<lparr>log_ll = 0, weight_scale = 0\<rparr>],
      val_batches = [\<lparr>log_ll = - 1, weight_scale = 0\<rparr>], samples = []\<rparr>
     (initial_state\<lparr>epoch := 1, optimal_log_ll := Finite 0, batch_idx := Some 1\<rparr>)
   = Inr (\<lparr>epoch = 2, running_loss = 0, running_log_ll = 0, optimal_log_ll = Finite 0,
           early_stop = 1, batch_idx = Some 1, losses_train = [0], losses_val = [1],
           out = [PrintEpoch 2, PrintTrainAverage 0 0 8,
                  PrintValAverage 1 (- 1) (bits_per_dim_formula (- 1) 3072),
                  SaveLossCurves [0] [1], Sample 32, SaveImage 2 [], SaveCheckpoint,
                  PrintEarlyStop 1 (Finite 0)]\<rparr>, False)"
    by (simp add: run_defs ln_256 bits_per_dim_formula_def)
  from checkpoint_every_epoch[OF body] body show ?thesis
    by (simp add: mean_val_log_ll_def initial_state_def)
qed


text \<open>
  The claim as stated fails: in a run of two epochs whose mean validation
  log-likelihoods are \<open>0\<close> and \<open>- 1\<close>, the second epoch does not improve on the best
  value \<open>0\<close>; the counter goes to 1, and a checkpoint is written all the same.
\<close>

theorem checkpoint_without_improvement_counterexample:
  "(case main_loop \<lparr>dataset = ''cifar10'', batch_size = 16, max_epoch = 2, sample_size = 32\<rparr>
          (Subset [0]) 3072
          (\<lambda>e. \<lparr>train_batches = [\<lparr>log_ll = 0, weight_scale = 0\<rparr>],
                 val_batches = [\<lparr>log_ll = (if e = 1 then 0 else - 1), weight_scale = 0\<rparr>],
                 samples = []\<rparr>)
          initial_state of
      Inl e \<Rightarrow> False
    | Inr fin \<Rightarrow>
        epoch fin = 2 \<and> early_stop fin = 1 \<and> optimal_log_ll fin = Finite 0
        \<and> filter checkpoint_or_epoch (out fin)
            = [PrintEpoch 1, SaveCheckpoint, SaveCheckpoint, PrintEarlyStop 0 (Finite 0),
               PrintEpoch 2, SaveCheckpoint, PrintEarlyStop 1 (Finite 0)])"
  apply (subst main_loop.simps)
  apply (simp add: run_defs)
  apply (subst main_loop.simps)
  apply (simp add: run_defs)
  apply (subst main_loop.simps)
  apply simp
  done

text \<open>
  Claim C8, as the code has it. In a run of the training loop every epoch calls
  \<^verbatim>\<open>flow.sample\<close> once, with \<^verbatim>\<open>args.sample_size\<close>; the epochs whose grid image is saved
  are, in order, the epochs \<open>e\<close> from 1 to the last one with \<open>e \<le> 15\<close>, \<open>e = 25\<close>, \<open>e = 35\<close>,
  \<open>e = 45\<close> or \<open>e\<close> a multiple of 10, and the image of epoch \<open>e\<close> shows the samples of that
  epoch after the reverse logit transform.
\<close>

theorem grid_saved_epochs:
  assumes "main_loop a train_split image_size flow initial_state = Inr fin"
  shows "List.map_filter sample_of (out fin) = replicate (nat (epoch fin)) (sample_size a)
       \<and> map fst (List.map_filter grid_of (out fin))
           = filter (\<lambda>e. e \<le> 15 \<or> e = 25 \<or> e = 35 \<or> e = 45 \<or> e mod 10 = 0) [1..epoch fin]
       \<and> List.map_filter grid_of (out fin)
           = map (\<lambda>e. (e, fst (logit_transform (samples (flow e)) (9 / 10) True [])))
               (filter (\<lambda>e. e \<le> 15 \<or> e = 25 \<or> e = 35 \<or> e = 45 \<or> e mod 10 = 0) [1..epoch fin])"
proof -
  from main_loop_grid[OF assms]
  have g: "List.map_filter grid_of (out fin)
           = map (\<lambda>e. (e, fst (logit_transform (samples (flow e)) (9 / 10) True [])))
               (filter (\<lambda>e. e \<le> 15 \<or> e = 25 \<or> e = 35 \<or> e = 45 \<or> e mod 10 = 0) [1..epoch fin])"
    and s: "List.map_filter sample_of (out fin) = replicate (nat (epoch fin)) (sample_size a)"
    by simp_all
  have "map fst (List.map_filter grid_of (out fin))
           = filter (\<lambda>e. e \<le> 15 \<or> e = 25 \<or> e = 35 \<or> e = 45 \<or> e mod 10 = 0) [1..epoch fin]"
    unfolding g by (simp add: comp_def)
  with g s show ?thesis by simp
qed

theorem grid_saved_epochs_witness:
  "main_loop \<lparr>dataset = ''cifar10'', batch_size = 16, max_epoch = 1, sample_size = 32\<rparr>
     (Subset [0]) 3072
     (\<lambda>e. \<lparr>train_batches = [\<lparr>log_ll = 0, weight_scale = 0\<rparr>],
            val_batches = [\<lparr>log_ll = 0, weight_scale = 0\<rparr>], samples = [[[[0]]]]\<rparr>)
     initial_state
   = Inr \<lparr>epoch = 1, running_loss = 0, running_log_ll = 0, optimal_log_ll = Finite 0,
          early_stop = 0, batch_idx = Some 1, losses_train = [0], losses_val = [0],
          out = [PrintEpoch 1, PrintTrainAverage 0 0 8, PrintValAverage 0 0 8,
                 SaveLossCurves [0] [0], Sample 32, SaveImage 1 [[[[1 / 2]]]], SaveCheckpoint,
                 SaveCheckpoint, PrintEarlyStop 0 (Finite 0)]\<rparr>
   \<and> List.map_filter sample_of
        [PrintEpoch 1, PrintTrainAverage 0 0 8, PrintValAverage 0 0 8,
         SaveLossCurves [0] [0], Sample 32, SaveImage 1 [[[[1 / 2]]]], SaveCheckpoint,
         SaveCheckpoint, PrintEarlyStop 0 (Finite 0)] = [32]
   \<and> List.map_filter grid_of
        [PrintEpoch 1, PrintTrainAverage 0 0 8, PrintValAverage 0 0 8,
         SaveLossCurves [0] [0], Sample 32, SaveImage 1 [[[[1 / 2]]]], SaveCheckpoint,
         SaveCheckpoint, PrintEarlyStop 0 (Finite 0)] = [(1, [[[[1 / 2]]]])]"
proof -
  have run: "main_loop \<lparr>dataset = ''cifar10'', batch_size = 16, max_epoch = 1, sample_size = 32\<rparr>
     (Subset [0]) 3072
     (\<lambda>e. \<lparr>train_batches = [\<lparr>log_ll = 0, weight_scale = 0\<rparr>],
            val_batches = [\<lparr>log_ll = 0, weight_scale = 0\<rparr>], samples = [[[[0]]]]\<rparr>)
     initial_state
   = Inr \<lparr>epoch = 1, running_loss = 0, running_log_ll = 0, optimal_log_ll = Finite 0,
          early_stop = 0, batch_idx = Some 1, losses_train = [0], losses_val = [0],
          out = [PrintEpoch 1, PrintTrainAverage 0 0 8, PrintValAverage 0 0 8,
                 SaveLossCurves [0] [0], Sample 32, SaveImage 1 [[[[1 / 2]]]], SaveCheckpoint,
                 SaveCheckpoint, PrintEarlyStop 0 (Finite 0)]\<rparr>"
    apply (subst main_loop.simps)
    apply (simp add: run_defs ln_256)
    apply (subst main_loop.simps)
    apply simp
    done
  from grid_saved_epochs[OF run] run show ?thesis
    by (simp add: logit_transform_def tmap_def Let_def)
qed

text \<open>
  The claim as stated fails: in a run of sixteen epochs the grid image is saved in
  the epochs 1 to 15 and not in epoch 16, and no period fits that.
\<close>

theorem grid_saved_epochs_counterexample:
  "(case main_loop \<lparr>dataset = ''cifar10'', batch_size = 16, max_epoch = 16, sample_size = 32\<rparr>
          (Subset [0]) 3072
          (\<lambda>e. \<lparr>train_batches = [\<lparr>log_ll = 0, weight_scale = 0\<rparr>],
                 val_batches = [\<lparr>log_ll = 0, weight_scale = 0\<rparr>], samples = []\<rparr>)
          initial_state of
      Inl e \<Rightarrow> False
    | Inr fin \<Rightarrow>
        epoch fin = 16
        \<and> map fst (List.map_filter grid_of (out fin)) = [1, 2, 3, 4, 5, 6, 7, 8, 9, 10, 11, 12, 13, 14, 15]
        \<and> \<not> (\<exists>k. \<forall>e \<in> {1..16}. e \<in> set (map fst (List.map_filter grid_of (out fin))) \<longleftrightarrow> k dvd e))"
proof -
  define a where "a = \<lparr>dataset = ''cifar10'', batch_size = 16, max_epoch = 16, sample_size = 32\<rparr>"
  define flow where "flow = (\<lambda>e::int. \<lparr>train_batches = [\<lparr>log_ll = 0, weight_scale = 0\<rparr>],
                 val_batches = [\<lparr>log_ll = 0, weight_scale = 0\<rparr>], samples = []\<rparr>)"
  have "\<forall>e. train_batches (flow e) \<noteq> []" by (simp add: flow_def)
  from main_loop_returns[OF this, of a "Subset [0]" 3072 initial_state] obtain fin where
    run: "main_loop a (Subset [0]) 3072 flow initial_state = Inr fin" by blast
  from main_loop_bookkeeping[OF run]
  have e: "0 \<le> epoch fin" "epoch fin \<le> 16"
    and bc: "(optimal_log_ll fin, early_stop fin) = best_and_counter flow (nat (epoch fin))"
    and ex: "epoch fin = 16 \<or> early_stop fin = 100"
    by (simp_all add: a_def)
  from bc counter_bounds[of flow "nat (epoch fin)"] e have "early_stop fin \<le> 16"
    by (metis snd_conv nat_le_iff order_trans of_nat_le_iff int_nat_eq)
  with ex have e16: "epoch fin = 16" by simp
  have up: "[1..16::int] = [1, 2, 3, 4, 5, 6, 7, 8, 9, 10, 11, 12, 13, 14, 15, 16]"
    by (simp add: upto_rec1)
  from main_loop_grid[OF run]
  have g: "map fst (List.map_filter grid_of (out fin)) = [1, 2, 3, 4, 5, 6, 7, 8, 9, 10, 11, 12, 13, 14, 15]"
    unfolding e16 up by (simp add: comp_def)
  have "\<not> (\<exists>k. \<forall>e \<in> {1..16}. e \<in> set (map fst (List.map_filter grid_of (out fin))) \<longleftrightarrow> k dvd e)"
  proof
    assume "\<exists>k. \<forall>e \<in> {1..16}. e \<in> set (map fst (List.map_filter grid_of (out fin))) \<longleftrightarrow> k dvd e"
    then obtain k :: int where
      k: "\<forall>e \<in> {1..16}. e \<in> set (map fst (List.map_filter grid_of (out fin))) \<longleftrightarrow> k dvd e"
      by blast
    from k[rule_format, of 1] have "k dvd 1" unfolding g by simp
    then have "k dvd 16" by (rule dvd_trans) simp
    with k[rule_format, of 16] show False unfolding g by simp
  qed
  with e16 g show ?thesis
    unfolding a_def[symmetric] flow_def[symmetric] run by simp
qed

lemma constant_flow_counter:
  assumes "\<forall>e. mean_val_log_ll (flow e) = 0"
  shows "best_and_counter flow (Suc n) = (Finite 0, int n)"
  using assms by (induction n) simp_all

lemma epoch_body_bound:
  assumes "batch_idx s \<noteq> None \<or> train_batches d \<noteq> []"
  shows "\<exists>s' stop. epoch_body a tr isz d s = Inr (s', stop) \<and> batch_idx s' \<noteq> None"
proof -
  define s0 where "s0 = emit (PrintEpoch (epoch s + 1)) (s\<lparr>epoch := epoch s + 1\<rparr>)"
  have b0: "batch_idx s0 = batch_idx s" by (simp add: s0_def emit_def)
  from foldl_train_batch[of a tr isz s0 "enumerate 1 (train_batches d)"] assms
  obtain n where "batch_idx (foldl (train_batch a tr isz) s0 (enumerate 1 (train_batches d))) = Some n"
    by (cases "train_batches d = []") (auto simp: enumerate_Nil_iff b0)
  then obtain s1 where t: "epoch_training a tr isz d s = Inr s1" and b: "batch_idx s1 = Some n"
    by (simp add: epoch_training_def Let_def s0_def emit_def)
  obtain k where "batch_idx (foldl val_batch s1 (enumerate 1 (val_batches d))) = Some k"
    using b by (cases "enumerate 1 (val_batches d) = []") (simp_all add: foldl_val_batch)
  then have "\<exists>s2 m. epoch_validating a isz d s1 = Inr (s2, m)"
    by (simp add: epoch_validating_def Let_def split: prod.splits)
  then obtain s2 m where "epoch_validating a isz d s1 = Inr (s2, m)"
    by blast
  with t obtain s' stop where body: "epoch_body a tr isz d s = Inr (s', stop)"
    by (cases "early_stopping_check m s2") (simp add: epoch_body_def)
  from body have "batch_idx s' \<noteq> None" by (rule epoch_body_Inr) simp
  with body show ?thesis by blast
qed

lemma epoch_body_unbound:
  assumes "batch_idx s = None" and "train_batches d = []"
  shows "epoch_body a tr isz d s = Inl UnboundLocalError"
  using assms by (simp add: epoch_body_def epoch_training_def Let_def emit_def)

lemma main_loop_returns_bound:
  assumes "batch_idx s \<noteq> None"
  shows "\<exists>fin. main_loop a tr isz flow s = Inr fin"
  using assms
proof (induction a tr isz flow s rule: main_loop.induct)
  case (1 a tr isz flow s)
  show ?case
  proof (cases "epoch s < max_epoch a")
    case False
    then show ?thesis by (simp add: main_loop_done)
  next
    case True
    from epoch_body_bound[of s "flow (epoch s + 1)" a tr isz] "1.prems" obtain s' stop where
      body: "epoch_body a tr isz (flow (epoch s + 1)) s = Inr (s', stop)"
      and b: "batch_idx s' \<noteq> None" by blast
    show ?thesis
    proof (cases stop)
      case True
      with \<open>epoch s < max_epoch a\<close> body show ?thesis by (simp add: main_loop_break)
    next
      case False
      from "1.IH"[OF True body refl False b] obtain fin where
        "main_loop a tr isz flow s' = Inr fin" by blast
      with True body False show ?thesis by (simp add: main_loop_continue)
    qed
  qed
qed

lemma main_loop_outcome:
  "(0 < max_epoch a \<and> train_batches (flow 1) = []
      \<longrightarrow> main_loop a tr isz flow initial_state = Inl UnboundLocalError)
   \<and> (\<not> (0 < max_epoch a \<and> train_batches (flow 1) = [])
      \<longrightarrow> (\<exists>fin. main_loop a tr isz flow initial_state = Inr fin))"
proof (intro conjI impI)
  assume "0 < max_epoch a \<and> train_batches (flow 1) = []"
  then have lt: "epoch initial_state < max_epoch a" and e: "train_batches (flow 1) = []"
    by (simp_all add: initial_state_def)
  have "epoch_body a tr isz (flow (epoch initial_state + 1)) initial_state = Inl UnboundLocalError"
    by (rule epoch_body_unbound) (simp_all add: initial_state_def e)
  with lt show "main_loop a tr isz flow initial_state = Inl UnboundLocalError"
    by (rule main_loop_error)
next
  assume n: "\<not> (0 < max_epoch a \<and> train_batches (flow 1) = [])"
  show "\<exists>fin. main_loop a tr isz flow initial_state = Inr fin"
  proof (cases "0 < max_epoch a")
    case False
    then show ?thesis by (simp add: main_loop_done initial_state_def)
  next
    case True
    with n have "train_batches (flow (epoch initial_state + 1)) \<noteq> []"
      by (simp add: initial_state_def)
    from epoch_body_bound[of initial_state "flow (epoch initial_state + 1)" a tr isz] this
    obtain s' stop where
      body: "epoch_body a tr isz (flow (epoch initial_state + 1)) initial_state = Inr (s', stop)"
      and b: "batch_idx s' \<noteq> None" by blast
    from True have lt: "epoch initial_state < max_epoch a" by (simp add: initial_state_def)
    show ?thesis
    proof (cases stop)
      case True
      with lt body show ?thesis by (simp add: main_loop_break)
    next
      case False
      from main_loop_returns_bound[OF b, of a tr isz flow] obtain fin where
        "main_loop a tr isz flow s' = Inr fin" by blast
      with lt body False show ?thesis by (simp add: main_loop_continue)
    qed
  qed
qed

text \<open>
  Claim C4. The loop is a total function: its recursion is well-founded for every value
  of \<^verbatim>\<open>max_epoch\<close>, since an epoch that does not end the loop moves the epoch counter one
  step towards it. It ends with the exception of line 125 when the first epoch has no
  training batch, and returns in every other case. When it returns, it has run at most
  \<^verbatim>\<open>max_epoch\<close> epochs; the best value and the early-stop counter are those of the
  specification's bookkeeping (reset to zero by an improving epoch, incremented by any
  other); the counter was below 100 after every earlier epoch; the loop has run all
  \<^verbatim>\<open>max_epoch\<close> epochs unless the counter is 100; and the last epochs, as many as the counter
  says, each failed to improve on the best value before them.
\<close>

theorem training_loop_terminates:
  "(0 < max_epoch a \<and> train_batches (flow 1) = []
      \<longrightarrow> main_loop a train_split image_size flow initial_state = Inl UnboundLocalError)
   \<and> (\<not> (0 < max_epoch a \<and> train_batches (flow 1) = [])
      \<longrightarrow> (\<exists>fin. main_loop a train_split image_size flow initial_state = Inr fin
            \<and> 0 \<le> epoch fin \<and> epoch fin \<le> max 0 (max_epoch a)
            \<and> (optimal_log_ll fin, early_stop fin) = best_and_counter flow (nat (epoch fin))
            \<and> (\<forall>n < nat (epoch fin). snd (best_and_counter flow n) < 100)
            \<and> (epoch fin = max 0 (max_epoch a) \<or> early_stop fin = 100)
            \<and> 0 \<le> early_stop fin \<and> early_stop fin \<le> epoch fin
            \<and> (\<forall>j. nat (epoch fin) - nat (early_stop fin) < j \<and> j \<le> nat (epoch fin)
                   \<longrightarrow> \<not> gt (mean_val_log_ll (flow (int j))) (fst (best_and_counter flow (j - 1))))))"
proof (intro conjI impI)
  assume "0 < max_epoch a \<and> train_batches (flow 1) = []"
  with main_loop_outcome[of a flow train_split image_size]
  show "main_loop a train_split image_size flow initial_state = Inl UnboundLocalError"
    by blast
next
  assume "\<not> (0 < max_epoch a \<and> train_batches (flow 1) = [])"
  with main_loop_outcome[of a flow train_split image_size] obtain fin where
    run: "main_loop a train_split image_size flow initial_state = Inr fin" by blast
  note b = main_loop_bookkeeping[OF run]
  from b have bc: "best_and_counter flow (nat (epoch fin)) = (optimal_log_ll fin, early_stop fin)"
    by simp
  have es: "snd (best_and_counter flow (nat (epoch fin))) = early_stop fin"
    unfolding bc by simp
  from counter_bounds[of flow "nat (epoch fin)"] b
  have range: "0 \<le> early_stop fin \<and> early_stop fin \<le> epoch fin"
    unfolding es by simp
  have last: "\<not> gt (mean_val_log_ll (flow (int j))) (fst (best_and_counter flow (j - 1)))"
    if "nat (epoch fin) - nat (early_stop fin) < j \<and> j \<le> nat (epoch fin)" for j
    using that counter_consecutive[of "nat (epoch fin)" flow j] unfolding es by simp
  from run b range last
  show "\<exists>fin. main_loop a train_split image_size flow initial_state = Inr fin
            \<and> 0 \<le> epoch fin \<and> epoch fin \<le> max 0 (max_epoch a)
            \<and> (optimal_log_ll fin, early_stop fin) = best_and_counter flow (nat (epoch fin))
            \<and> (\<forall>n < nat (epoch fin). snd (best_and_counter flow n) < 100)
            \<and> (epoch fin = max 0 (max_epoch a) \<or> early_stop fin = 100)
            \<and> 0 \<le> early_stop fin \<and> early_stop fin \<le> epoch fin
            \<and> (\<forall>j. nat (epoch fin) - nat (early_stop fin) < j \<and> j \<le> nat (epoch fin)
                   \<longrightarrow> \<not> gt (mean_val_log_ll (flow (int j))) (fst (best_and_counter flow (j - 1))))"
    by blast
qed

theorem training_loop_terminates_witness:
  "\<not> (0 < (300::int) \<and> [\<lparr>log_ll = 0, weight_scale = 0\<rparr>] = [])
   \<and> (\<exists>fin. main_loop \<lparr>dataset = ''cifar10'', batch_size = 16, max_epoch = 300, sample_size = 32\<rparr>
          (Subset [0]) 3072
          (\<lambda>e. \<lparr>train_batches = [\<lparr>log_ll = 0, weight_scale = 0\<rparr>],
                 val_batches = [\<lparr>log_ll = 0, weight_scale = 0\<rparr>], samples = []\<rparr>)
          initial_state = Inr fin
        \<and> epoch fin = 101 \<and> early_stop fin = 100 \<and> optimal_log_ll fin = Finite 0)
   \<and> main_loop \<lparr>dataset = ''cifar10'', batch_size = 16, max_epoch = 300, sample_size = 32\<rparr>
          (Subset [0]) 3072
          (\<lambda>e. \<lparr>train_batches = [], val_batches = [], samples = []\<rparr>)
          initial_state = Inl UnboundLocalError"
proof -
  define a where "a = \<lparr>dataset = ''cifar10'', batch_size = 16, max_epoch = 300, sample_size = 32\<rparr>"
  define flow where "flow = (\<lambda>e::int. \<lparr>train_batches = [\<lparr>log_ll = 0, weight_scale = 0\<rparr>],
                 val_batches = [\<lparr>log_ll = 0, weight_scale = 0\<rparr>], samples = []\<rparr>)"
  have ne: "\<not> (0 < max_epoch a \<and> train_batches (flow 1) = [])" by (simp add: flow_def)
  have "\<forall>e. mean_val_log_ll (flow e) = 0" by (simp add: flow_def mean_val_log_ll_def)
  note c = constant_flow_counter[OF this]
  from training_loop_terminates[of a flow "Subset [0]" 3072] ne obtain fin where
    run: "main_loop a (Subset [0]) 3072 flow initial_state = Inr fin"
    and e: "0 \<le> epoch fin" "epoch fin \<le> 300"
    and bc: "(optimal_log_ll fin, early_stop fin) = best_and_counter flow (nat (epoch fin))"
    and small: "\<forall>n < nat (epoch fin). snd (best_and_counter flow n) < 100"
    and ex: "epoch fin = 300 \<or> early_stop fin = 100"
    by (auto simp: a_def)
  have le: "epoch fin \<le> 101"
  proof (rule ccontr)
    assume "\<not> epoch fin \<le> 101"
    then have "Suc 100 < nat (epoch fin)" by simp
    with small have "snd (best_and_counter flow (Suc 100)) < 100" by blast
    then show False unfolding c by simp
  qed
  with ex have es: "early_stop fin = 100" by simp
  obtain n where n: "nat (epoch fin) = Suc n"
  proof (cases "nat (epoch fin)")
    case 0
    with bc es show ?thesis by simp
  next
    case (Suc n)
    then show ?thesis by (rule that)
  qed
  from bc[unfolded n c] es have "optimal_log_ll fin = Finite 0" "n = 100" by simp_all
  with n e have "epoch fin = 101" by simp
  with run es \<open>optimal_log_ll fin = Finite 0\<close>
  have 1: "\<exists>fin. main_loop \<lparr>dataset = ''cifar10'', batch_size = 16, max_epoch = 300, sample_size = 32\<rparr>
          (Subset [0]) 3072
          (\<lambda>e. \<lparr>train_batches = [\<lparr>log_ll = 0, weight_scale = 0\<rparr>],
                 val_batches = [\<lparr>log_ll = 0, weight_scale = 0\<rparr>], samples = []\<rparr>)
          initial_state = Inr fin
        \<and> epoch fin = 101 \<and> early_stop fin = 100 \<and> optimal_log_ll fin = Finite 0"
    unfolding a_def flow_def by blast
  from training_loop_terminates[of a "\<lambda>e. \<lparr>train_batches = [], val_batches = [], samples = []\<rparr>"
      "Subset [0]" 3072]
  have 2: "main_loop \<lparr>dataset = ''cifar10'', batch_size = 16, max_epoch = 300, sample_size = 32\<rparr>
          (Subset [0]) 3072
          (\<lambda>e. \<lparr>train_batches = [], val_batches = [], samples = []\<rparr>)
          initial_state = Inl UnboundLocalError"
    by (simp add: a_def)
  from 1 2 show ?thesis by simp
qed

lemma reports_formula_iff:
  "reports_formula D ev \<longleftrightarrow>
     (\<forall>seen n loss L bpd. ev = PrintBatch seen n loss L bpd \<longrightarrow> bpd = (- L + ln 256 * D) / (D * ln 2))
   \<and> (\<forall>loss L bpd. ev = PrintTrainAverage loss L bpd \<longrightarrow> bpd = (- L + ln 256 * D) / (D * ln 2))
   \<and> (\<forall>loss L bpd. ev = PrintValAverage loss L bpd \<longrightarrow> bpd = (- L + ln 256 * D) / (D * ln 2))"
  by (cases ev) (simp_all add: bits_per_dim_formula_def)

text \<open>
  Claim C6. In the output of \<^verbatim>\<open>main\<close>, every line that reports bits per dimension (the
  progress line of a training batch, the train averages, the validation averages)
  reports \<open>(- L + ln 256 * D) / (D * ln 2)\<close> for the log-likelihood \<open>L\<close> of the same line
  and \<open>D = channel * size\<^sup>2\<close> of the dataset that \<^verbatim>\<open>load\<close> returned.
\<close>

theorem bits_per_dim_reported:
  assumes "load d randperm (dataset a) = Inr (train_split, val_split, data_info, d')"
    and "main d randperm flow a = Inr fin"
    and "D = real_of_int (channel data_info * (size_hw data_info)\<^sup>2)"
  shows "\<forall>ev \<in> set (out fin).
           (\<forall>seen n loss L bpd. ev = PrintBatch seen n loss L bpd
               \<longrightarrow> bpd = (- L + ln 256 * D) / (D * ln 2))
         \<and> (\<forall>loss L bpd. ev = PrintTrainAverage loss L bpd
               \<longrightarrow> bpd = (- L + ln 256 * D) / (D * ln 2))
         \<and> (\<forall>loss L bpd. ev = PrintValAverage loss L bpd
               \<longrightarrow> bpd = (- L + ln 256 * D) / (D * ln 2))"
proof -
  from assms(1,2) obtain s where
    run: "main_loop a train_split (channel data_info * (size_hw data_info)\<^sup>2) flow initial_state = Inr s"
    and fin: "fin = emit (PrintFinished (epoch s)) s"
    by (auto simp: main_def Let_def split: sum.splits)
  from main_loop_reports[OF run] have "list_all (reports_formula D) (out s)"
    unfolding assms(3) .
  then have "list_all (reports_formula D) (out fin)"
    unfolding fin by (simp add: emit_def)
  then have "\<forall>ev \<in> set (out fin). reports_formula D ev"
    by (simp add: list_all_iff)
  then show ?thesis
    unfolding reports_formula_iff .
qed

theorem bits_per_dim_reported_witness:
  "load \<lparr>listing = Map.empty, csv_files = Map.empty, cifar10_train = Some 50000,
          image_folders = Map.empty\<rparr> (\<lambda>n. rev [0..<n]) ''cifar10''
     = Inr (Subset (take 46000 (rev [0..<50000])), Subset (take 4000 (drop 46000 (rev [0..<50000]))),
            \<lparr>name = ''cifar10'', channel = 3, size_hw = 32\<rparr>,
            \<lparr>listing = Map.empty, csv_files = Map.empty, cifar10_train = Some 50000,
              image_folders = Map.empty\<rparr>)
   \<and> main \<lparr>listing = Map.empty, csv_files = Map.empty, cifar10_train = Some 50000,
          image_folders = Map.empty\<rparr> (\<lambda>n. rev [0..<n])
        (\<lambda>e. \<lparr>train_batches = [\<lparr>log_ll = 0, weight_scale = 0\<rparr>],
               val_batches = [\<lparr>log_ll = 0, weight_scale = 0\<rparr>], samples = []\<rparr>)
        \<lparr>dataset = ''cifar10'', batch_size = 16, max_epoch = 1, sample_size = 32\<rparr>
     = Inr \<lparr>epoch = 1, running_loss = 0, running_log_ll = 0, optimal_log_ll = Finite 0,
            early_stop = 0, batch_idx = Some 1, losses_train = [0], losses_val = [0],
            out = [PrintEpoch 1, PrintTrainAverage 0 0 8, PrintValAverage 0 0 8,
                   SaveLossCurves [0] [0], Sample 32, SaveImage 1 [], SaveCheckpoint,
                   SaveCheckpoint, PrintEarlyStop 0 (Finite 0), PrintFinished 1]\<rparr>
   \<and> (8::real) = (- 0 + ln 256 * real_of_int (3 * 32\<^sup>2)) / (real_of_int (3 * 32\<^sup>2) * ln 2)"
proof -
  have l: "load \<lparr>listing = Map.empty, csv_files = Map.empty, cifar10_train = Some 50000,
          image_folders = Map.empty\<rparr> (\<lambda>n. rev [0..<n]) ''cifar10''
     = Inr (Subset (take 46000 (rev [0..<50000])), Subset (take 4000 (drop 46000 (rev [0..<50000]))),
            \<lparr>name = ''cifar10'', channel = 3, size_hw = 32\<rparr>,
            \<lparr>listing = Map.empty, csv_files = Map.empty, cifar10_train = Some 50000,
              image_folders = Map.empty\<rparr>)"
    by (simp add: load_def CIFAR10_def random_split_def Let_def del: upt_rec_numeral)
  have run: "main_loop \<lparr>dataset = ''cifar10'', batch_size = 16, max_epoch = 1, sample_size = 32\<rparr>
     (Subset (take 46000 (rev [0..<50000]))) 3072
     (\<lambda>e. \<lparr>train_batches = [\<lparr>log_ll = 0, weight_scale = 0\<rparr>],
            val_batches = [\<lparr>log_ll = 0, weight_scale = 0\<rparr>], samples = []\<rparr>)
     initial_state
   = Inr \<lparr>epoch = 1, running_loss = 0, running_log_ll = 0, optimal_log_ll = Finite 0,
          early_stop = 0, batch_idx = Some 1, losses_train = [0], losses_val = [0],
          out = [PrintEpoch 1, PrintTrainAverage 0 0 8, PrintValAverage 0 0 8,
                 SaveLossCurves [0] [0], Sample 32, SaveImage 1 [], SaveCheckpoint,
                 SaveCheckpoint, PrintEarlyStop 0 (Finite 0)]\<rparr>"
    apply (subst main_loop.simps)
    apply (simp add: run_defs ln_256 del: upt_rec_numeral)
    apply (subst main_loop.simps)
    apply simp
    done
  have m: "main \<lparr>listing = Map.empty, csv_files = Map.empty, cifar10_train = Some 50000,
          image_folders = Map.empty\<rparr> (\<lambda>n. rev [0..<n])
        (\<lambda>e. \<lparr>train_batches = [\<lparr>log_ll = 0, weight_scale = 0\<rparr>],
               val_batches = [\<lparr>log_ll = 0, weight_scale = 0\<rparr>], samples = []\<rparr>)
        \<lparr>dataset = ''cifar10'', batch_size = 16, max_epoch = 1, sample_size = 32\<rparr>
     = Inr \<lparr>epoch = 1, running_loss = 0, running_log_ll = 0, optimal_log_ll = Finite 0,
            early_stop = 0, batch_idx = Some 1, losses_train = [0], losses_val = [0],
            out = [PrintEpoch 1, PrintTrainAverage 0 0 8, PrintValAverage 0 0 8,
                   SaveLossCurves [0] [0], Sample 32, SaveImage 1 [], SaveCheckpoint,
                   SaveCheckpoint, PrintEarlyStop 0 (Finite 0), PrintFinished 1]\<rparr>"
    unfolding main_def by (simp only: args.simps l sum.case prod.case Let_def DataInfo.simps)
      (simp add: run emit_def del: upt_rec_numeral)
  have l': "load \<lparr>listing = Map.empty, csv_files = Map.empty, cifar10_train = Some 50000,
          image_folders = Map.empty\<rparr> (\<lambda>n. rev [0..<n])
       (dataset \<lparr>dataset = ''cifar10'', batch_size = 16, max_epoch = 1, sample_size = 32\<rparr>)
     = Inr (Subset (take 46000 (rev [0..<50000])), Subset (take 4000 (drop 46000 (rev [0..<50000]))),
            \<lparr>name = ''cifar10'', channel = 3, size_hw = 32\<rparr>,
            \<lparr>listing = Map.empty, csv_files = Map.empty, cifar10_train = Some 50000,
              image_folders = Map.empty\<rparr>)"
    using l by (simp only: args.simps)
  from bits_per_dim_reported[OF l' m refl, rule_format, of "PrintValAverage 0 0 8"]
  have "(8::real) = (- 0 + ln 256 * real_of_int (3 * 32\<^sup>2)) / (real_of_int (3 * 32\<^sup>2) * ln 2)"
    by simp
  with l m show ?thesis by blast
qed

end
